theory Spec2Isabelle
  imports Complex_Main "HOL-Library.Sublist"
begin

section \<open>Text primitives of the clause linker\<close>

text \<open>
  The clause linker (\<^verbatim>\<open>app/tools/clause_linker/main.py\<close>) works on Python strings with
  \<^verbatim>\<open>str.lower\<close>, \<^verbatim>\<open>str.split\<close>, \<^verbatim>\<open>str.strip\<close>, the substring test \<^verbatim>\<open>in\<close> and the
  \<^verbatim>\<open>re\<close> module. A Python string is modelled as a \<open>string\<close> over the 256 characters
  of Latin-1; the character classes below are those of Python on these characters.
\<close>

definition is_space :: "char \<Rightarrow> bool" where
  \<comment> \<open>\<^verbatim>\<open>str.isspace\<close> and \<^verbatim>\<open>\s\<close>: TAB, LF, VT, FF, CR, FS, GS, RS, US, the blank, NEL
      and the no-break space.\<close>
  "is_space c =
     (let n = (of_char c :: nat)
      in (9 \<le> n \<and> n \<le> 13) \<or> (28 \<le> n \<and> n \<le> 32) \<or> n = 133 \<or> n = 160)"

definition is_digit :: "char \<Rightarrow> bool" where
  \<comment> \<open>\<^verbatim>\<open>\d\<close>\<close>
  "is_digit c = (let n = (of_char c :: nat) in 48 \<le> n \<and> n \<le> 57)"

definition is_upper :: "char \<Rightarrow> bool" where
  \<comment> \<open>the capital letters: A to Z, and those of Latin-1 but for the multiplication sign\<close>
  "is_upper c =
     (let n = (of_char c :: nat)
      in (65 \<le> n \<and> n \<le> 90) \<or> (192 \<le> n \<and> n \<le> 222 \<and> n \<noteq> 215))"

definition is_lower :: "char \<Rightarrow> bool" where
  \<comment> \<open>the small letters whose capital is a character of Latin-1\<close>
  "is_lower c =
     (let n = (of_char c :: nat)
      in (97 \<le> n \<and> n \<le> 122) \<or> (224 \<le> n \<and> n \<le> 254 \<and> n \<noteq> 247))"

definition is_word :: "char \<Rightarrow> bool" where
  \<comment> \<open>\<^verbatim>\<open>\w\<close>, which decides where \<^verbatim>\<open>\b\<close> holds: the underscore and the characters that
      \<^verbatim>\<open>str.isalnum\<close> accepts, among them the ordinal indicators, the micro sign, the
      superscript digits and the fractions of Latin-1.\<close>
  "is_word c =
     (let n = (of_char c :: nat)
      in is_digit c \<or> (65 \<le> n \<and> n \<le> 90) \<or> (97 \<le> n \<and> n \<le> 122) \<or> n = 95
         \<or> n = 170 \<or> n = 178 \<or> n = 179 \<or> n = 181 \<or> n = 185 \<or> n = 186
         \<or> (188 \<le> n \<and> n \<le> 190)
         \<or> (192 \<le> n \<and> n \<noteq> 215 \<and> n \<noteq> 247))"

definition lower_char :: "char \<Rightarrow> char" where
  "lower_char c = (if is_upper c then char_of ((of_char c :: nat) + 32) else c)"

definition upper_char :: "char \<Rightarrow> char" where
  "upper_char c = (if is_lower c then char_of ((of_char c :: nat) - 32) else c)"

definition lower :: "string \<Rightarrow> string" where
  \<comment> \<open>\<^verbatim>\<open>s.lower()\<close>\<close>
  "lower s = map lower_char s"

fun split_ws :: "string \<Rightarrow> string \<Rightarrow> string list" where
  "split_ws w [] = (if w = [] then [] else [w])"
| "split_ws w (c # cs) =
     (if is_space c then (if w = [] then split_ws [] cs else w # split_ws [] cs)
      else split_ws (w @ [c]) cs)"

definition split :: "string \<Rightarrow> string list" where
  \<comment> \<open>\<^verbatim>\<open>s.split()\<close>: the maximal runs of non-blank characters, in order.\<close>
  "split s = split_ws [] s"

definition strip :: "string \<Rightarrow> string" where
  \<comment> \<open>\<^verbatim>\<open>s.strip()\<close>\<close>
  "strip s = rev (dropWhile is_space (rev (dropWhile is_space s)))"

fun py_in :: "string \<Rightarrow> string \<Rightarrow> bool" where
  \<comment> \<open>\<^verbatim>\<open>a in b\<close> on strings: \<open>a\<close> occurs in \<open>b\<close> as a contiguous substring.\<close>
  "py_in a [] = (a = [])"
| "py_in a (c # cs) = (prefix a (c # cs) \<or> py_in a cs)"

definition truncate_text :: "string \<Rightarrow> string" where
  \<comment> \<open>\<^verbatim>\<open>t[:200] + "..." if len(t) > 200 else t\<close>\<close>
  "truncate_text t = (if length t > 200 then take 200 t @ ''...'' else t)"

section \<open>Regular expressions\<close>

text \<open>
  The patterns of the linker use literals, character ranges, \<^verbatim>\<open>\d\<close>, \<^verbatim>\<open>\s\<close>, \<^verbatim>\<open>\b\<close>,
  alternation, greedy repetition and capturing groups. They are kept as syntax trees and run
  by a backtracking matcher that returns every way the pattern matches at a position, the
  one Python prefers first: the left alternative before the right, one more round of a
  repetition before leaving it.
\<close>

datatype rx =
    Eps
  | Chr char
  | Rng char char
  | Digit
  | Space
  | WordB
  | Seq rx rx
  | Alt rx rx
  | Star rx
  | Grp nat rx

definition Plus :: "rx \<Rightarrow> rx" where
  "Plus r = Seq r (Star r)"

definition Str :: "string \<Rightarrow> rx" where
  "Str s = foldr (\<lambda>c r. Seq (Chr c) r) s Eps"

definition Seqs :: "rx list \<Rightarrow> rx" where
  "Seqs rs = foldr Seq rs Eps"

definition Alts :: "rx list \<Rightarrow> rx" where
  "Alts rs = foldr Alt (butlast rs) (last rs)"

text \<open>
  A matcher state is the text already passed (reversed, so that its head is the previous
  character), the text still ahead, and the groups captured so far, the latest first.
\<close>

type_synonym mstate = "string \<times> string \<times> (nat \<times> string) list"

definition chr_ok :: "bool \<Rightarrow> char \<Rightarrow> char \<Rightarrow> bool" where
  \<comment> \<open>a literal; with \<^verbatim>\<open>(?i)\<close> the case is ignored\<close>
  "chr_ok ic c x = (if ic then lower_char x = lower_char c else x = c)"

definition in_rng :: "char \<Rightarrow> char \<Rightarrow> char \<Rightarrow> bool" where
  "in_rng lo hi x = ((of_char lo :: nat) \<le> of_char x \<and> (of_char x :: nat) \<le> of_char hi)"

definition rng_ok :: "bool \<Rightarrow> char \<Rightarrow> char \<Rightarrow> char \<Rightarrow> bool" where
  \<comment> \<open>a range; with \<^verbatim>\<open>(?i)\<close> a letter matches when either of its cases is in the range\<close>
  "rng_ok ic lo hi x =
     (in_rng lo hi x \<or> (ic \<and> (in_rng lo hi (lower_char x) \<or> in_rng lo hi (upper_char x))))"

definition at_boundary :: "string \<Rightarrow> string \<Rightarrow> bool" where
  \<comment> \<open>\<^verbatim>\<open>\b\<close>: exactly one of the previous and the next character is a word character\<close>
  "at_boundary passed ahead =
     ((case passed of [] \<Rightarrow> False | p # _ \<Rightarrow> is_word p)
        \<noteq> (case ahead of [] \<Rightarrow> False | n # _ \<Rightarrow> is_word n))"

fun one_char :: "(char \<Rightarrow> bool) \<Rightarrow> mstate \<Rightarrow> mstate list" where
  "one_char ok (b, [], g) = []"
| "one_char ok (b, x # xs, g) = (if ok x then [(x # b, xs, g)] else [])"

primrec rx_star :: "(mstate \<Rightarrow> mstate list) \<Rightarrow> nat \<Rightarrow> mstate \<Rightarrow> mstate list" where
  "rx_star step 0 s = [s]"
| "rx_star step (Suc k) s =
     concat (map (rx_star step k)
               (filter (\<lambda>s'. length (fst (snd s')) < length (fst (snd s))) (step s))) @ [s]"

primrec rx_match :: "bool \<Rightarrow> rx \<Rightarrow> mstate \<Rightarrow> mstate list" where
  "rx_match ic Eps s = [s]"
| "rx_match ic (Chr c) s = one_char (chr_ok ic c) s"
| "rx_match ic (Rng lo hi) s = one_char (rng_ok ic lo hi) s"
| "rx_match ic Digit s = one_char is_digit s"
| "rx_match ic Space s = one_char is_space s"
| "rx_match ic WordB s = (if at_boundary (fst s) (fst (snd s)) then [s] else [])"
| "rx_match ic (Seq p q) s = concat (map (rx_match ic q) (rx_match ic p s))"
| "rx_match ic (Alt p q) s = rx_match ic p s @ rx_match ic q s"
| "rx_match ic (Star p) s = rx_star (rx_match ic p) (length (fst (snd s))) s"
| "rx_match ic (Grp n p) s =
     map (\<lambda>(b', r', g'). (b', r', (n, take (length (fst (snd s)) - length r') (fst (snd s))) # g'))
         (rx_match ic p s)"

text \<open>
  \<^verbatim>\<open>re.finditer\<close> scans from the left: at each position the preferred match is taken if
  there is one and the scan goes on behind it, otherwise it moves one character on. Each
  match is returned as its whole text (group 0) and its groups. None of the patterns below
  matches the empty string; a match of no character is passed over.
\<close>

fun finditer_from :: "bool \<Rightarrow> rx \<Rightarrow> string \<Rightarrow> string \<Rightarrow> (string \<times> (nat \<times> string) list) list" where
  "finditer_from ic p b r =
     (case rx_match ic p (b, r, []) of
        (b', r', g) # _ \<Rightarrow>
          (if length r' < length r
           then (take (length r - length r') r, g) # finditer_from ic p b' r'
           else (case r of [] \<Rightarrow> [] | x # xs \<Rightarrow> finditer_from ic p (x # b) xs))
      | [] \<Rightarrow> (case r of [] \<Rightarrow> [] | x # xs \<Rightarrow> finditer_from ic p (x # b) xs))"

definition finditer :: "bool \<Rightarrow> rx \<Rightarrow> string \<Rightarrow> (string \<times> (nat \<times> string) list) list" where
  "finditer ic p s = finditer_from ic p [] s"

fun sub_from :: "bool \<Rightarrow> rx \<Rightarrow> string \<Rightarrow> string \<Rightarrow> string \<Rightarrow> string" where
  "sub_from ic p repl b r =
     (case rx_match ic p (b, r, []) of
        (b', r', g) # _ \<Rightarrow>
          (if length r' < length r
           then repl @ sub_from ic p repl b' r'
           else (case r of [] \<Rightarrow> [] | x # xs \<Rightarrow> x # sub_from ic p repl (x # b) xs))
      | [] \<Rightarrow> (case r of [] \<Rightarrow> [] | x # xs \<Rightarrow> x # sub_from ic p repl (x # b) xs))"

definition re_sub :: "bool \<Rightarrow> rx \<Rightarrow> string \<Rightarrow> string \<Rightarrow> string" where
  \<comment> \<open>\<^verbatim>\<open>re.sub(pattern, repl, s)\<close>\<close>
  "re_sub ic p repl s = sub_from ic p repl [] s"

fun ngroups :: "rx \<Rightarrow> nat" where
  \<comment> \<open>\<^verbatim>\<open>len(match.groups())\<close>: the number of capturing groups of the pattern\<close>
  "ngroups (Seq p q) = ngroups p + ngroups q"
| "ngroups (Alt p q) = ngroups p + ngroups q"
| "ngroups (Star p) = ngroups p"
| "ngroups (Grp n p) = Suc (ngroups p)"
| "ngroups _ = 0"

definition group :: "(nat \<times> string) list \<Rightarrow> nat \<Rightarrow> string option" where
  \<comment> \<open>\<^verbatim>\<open>match.group(n)\<close>; \<open>None\<close> for a group that took no part in the match\<close>
  "group g n = map_of g n"

section \<open>The clause linker\<close>

subsection \<open>Direct mentions\<close>

text \<open>
  \<^verbatim>\<open>ClauseLinker.clause_patterns\<close>, each with its \<^verbatim>\<open>(?i)\<close> flag:
  \<^verbatim>\<open>(?i)(?:section|rule|chapter|part)\s+(\d+(?:\(\d+\))*(?:\([a-z]+\))*)\<close>,
  \<^verbatim>\<open>(?i)(?:clause|para|paragraph)\s+(\d+(?:\.\d+)*)\<close>,
  \<^verbatim>\<open>\b(\d+\.\d+(?:\.\d+)*)\b\<close>,
  \<^verbatim>\<open>\((\d+)\)\(([a-z]+)\)\<close> and
  \<^verbatim>\<open>\b(\d+)\([a-z]+\)\<close>.
\<close>

definition clause_patterns :: "(bool \<times> rx) list" where
  "clause_patterns =
    [(True, Seqs [Alts [Str ''section'', Str ''rule'', Str ''chapter'', Str ''part''],
                  Plus Space,
                  Grp 1 (Seqs [Plus Digit,
                               Star (Seqs [Chr CHR ''('', Plus Digit, Chr CHR '')'']),
                               Star (Seqs [Chr CHR ''('', Plus (Rng CHR ''a'' CHR ''z''), Chr CHR '')''])])]),
     (True, Seqs [Alts [Str ''clause'', Str ''para'', Str ''paragraph''],
                  Plus Space,
                  Grp 1 (Seqs [Plus Digit, Star (Seqs [Chr CHR ''.'', Plus Digit])])]),
     (False, Seqs [WordB,
                   Grp 1 (Seqs [Plus Digit, Chr CHR ''.'', Plus Digit,
                                Star (Seqs [Chr CHR ''.'', Plus Digit])]),
                   WordB]),
     (False, Seqs [Chr CHR ''('', Grp 1 (Plus Digit), Chr CHR '')'',
                   Chr CHR ''('', Grp 2 (Plus (Rng CHR ''a'' CHR ''z'')), Chr CHR '')'']),
     (False, Seqs [WordB, Grp 1 (Plus Digit),
                   Chr CHR ''('', Plus (Rng CHR ''a'' CHR ''z''), Chr CHR '')''])]"

definition normalize_reference :: "string \<Rightarrow> string" where
  "normalize_reference ref =
     (if ref = [] then []
      else let ref = re_sub False (Plus Space) '' '' (strip ref);
               ref = re_sub True (Seq (Str ''section'') (Plus Space)) ''Section '' ref;
               ref = re_sub True (Seq (Str ''rule'') (Plus Space)) ''Rule '' ref;
               ref = re_sub True (Seq (Str ''chapter'') (Plus Space)) ''Chapter '' ref;
               ref = re_sub True (Seq (Str ''part'') (Plus Space)) ''Part '' ref
           in ref)"

definition py_str :: "string option \<Rightarrow> string" where
  \<comment> \<open>how an f-string prints a group\<close>
  "py_str g = (case g of None \<Rightarrow> ''None'' | Some s \<Rightarrow> s)"

definition mention_of :: "rx \<Rightarrow> string \<times> (nat \<times> string) list \<Rightarrow> string" where
  \<comment> \<open>the mention a match stands for; a group that is \<open>None\<close> normalises to the empty
      mention, as the empty string does\<close>
  "mention_of p m =
     (if ngroups p = 1 then (case group (snd m) 1 of None \<Rightarrow> [] | Some s \<Rightarrow> s)
      else if ngroups p = 2
        then py_str (group (snd m) 1) @ ''('' @ py_str (group (snd m) 2) @ '')''
      else fst m)"

definition add_mention :: "string list \<Rightarrow> string \<Rightarrow> string list" where
  \<comment> \<open>\<^verbatim>\<open>if mention and mention not in mentions: mentions.append(mention)\<close>\<close>
  "add_mention mentions mention =
     (if mention \<noteq> [] \<and> mention \<notin> set mentions then mentions @ [mention] else mentions)"

definition find_direct_mentions :: "string \<Rightarrow> string list" where
  "find_direct_mentions text' =
     foldl add_mention []
       (concat (map (\<lambda>(ic, p). map (\<lambda>m. normalize_reference (mention_of p m)) (finditer ic p text'))
                    clause_patterns))"

subsection \<open>Clauses, candidates and the response\<close>

text \<open>
  A row of the \<^verbatim>\<open>clauses\<close> table (\<^verbatim>\<open>ref\<close> and \<^verbatim>\<open>text\<close> are \<^verbatim>\<open>NOT NULL\<close>, the embedding is
  a nullable array of floats) and the dictionary \<^verbatim>\<open>get_draft_clauses\<close> makes of it. Scores
  are real numbers: the model compares and divides exactly where the code rounds to a float.
\<close>

record clause_row =
  row_draft_id :: string
  row_ref :: string
  row_text :: string
  row_embedding :: "real list option"

record clause =
  cl_ref :: string
  cl_text :: string
  cl_embedding :: "real list option"

record clause_candidate =
  clause_ref :: string
  clause_text :: string
  similarity_score :: real
  match_type :: string

record link_response =
  clause_candidates :: "string list"
  detailed_matches :: "clause_candidate list"
  confidence :: real

text \<open>
  The two collaborators of the linker that can fail. The database either answers the query
  or raises; the embedding model is absent (it failed to load and the global is \<^verbatim>\<open>None\<close>)
  or present, and then \<^verbatim>\<open>encode\<close> returns a vector or raises.
\<close>

datatype database = Unavailable | Rows "clause_row list"

type_synonym encoder = "string \<Rightarrow> real list option"

definition similarity_threshold :: real where
  "similarity_threshold = 0.3"

definition max_candidates :: nat where
  "max_candidates = 5"

definition get_draft_clauses :: "database \<Rightarrow> string \<Rightarrow> clause list" where
  \<comment> \<open>the query filtered by draft; \<^verbatim>\<open>except Exception: return []\<close>\<close>
  "get_draft_clauses db draft_id =
     (case db of
        Unavailable \<Rightarrow> []
      | Rows rows \<Rightarrow>
          map (\<lambda>r. \<lparr>cl_ref = row_ref r, cl_text = row_text r, cl_embedding = row_embedding r\<rparr>)
              (filter (\<lambda>r. row_draft_id r = draft_id) rows))"

definition sort_by_score :: "clause_candidate list \<Rightarrow> clause_candidate list" where
  \<comment> \<open>\<^verbatim>\<open>candidates.sort(key=lambda x: x.similarity_score, reverse=True)\<close>: stable, so
      candidates of equal score keep their order\<close>
  "sort_by_score cands = sort_key (\<lambda>c. - similarity_score c) cands"

subsection \<open>The semantic tier\<close>

definition dot :: "real list \<Rightarrow> real list \<Rightarrow> real" where
  "dot xs ys = sum_list (map2 (*) xs ys)"

definition norm2 :: "real list \<Rightarrow> real" where
  \<comment> \<open>\<^verbatim>\<open>np.linalg.norm\<close>\<close>
  "norm2 xs = sqrt (sum_list (map (\<lambda>x. x * x) xs))"

definition cosine :: "real list \<Rightarrow> real list \<Rightarrow> real" where
  \<comment> \<open>With a zero vector numpy divides zero by zero and yields a not-a-number, which no
      comparison accepts; here the quotient is 0, which the threshold rejects as well.\<close>
  "cosine q e = dot q e / (norm2 q * norm2 e)"

fun semantic_candidates :: "real list \<Rightarrow> clause list \<Rightarrow> clause_candidate list option" where
  \<comment> \<open>the loop of the semantic tier; \<open>None\<close> when \<^verbatim>\<open>np.dot\<close> raises on vectors of
      different lengths. A clause with no embedding or an empty one is skipped.\<close>
  "semantic_candidates q [] = Some []"
| "semantic_candidates q (c # cs) =
     (case cl_embedding c of
        None \<Rightarrow> semantic_candidates q cs
      | Some e \<Rightarrow>
          if e = [] then semantic_candidates q cs
          else if length e \<noteq> length q then None
          else (case semantic_candidates q cs of
                  None \<Rightarrow> None
                | Some rest \<Rightarrow>
                    Some (if cosine q e > similarity_threshold
                          then \<lparr>clause_ref = cl_ref c, clause_text = truncate_text (cl_text c),
                                similarity_score = cosine q e, match_type = ''semantic''\<rparr> # rest
                          else rest)))"

definition semantic_similarity_search ::
    "encoder option \<Rightarrow> string \<Rightarrow> clause list \<Rightarrow> clause_candidate list" where
  "semantic_similarity_search embedding_model query_text clauses =
     (case embedding_model of
        None \<Rightarrow> []
      | Some encode \<Rightarrow>
          if clauses = [] then []
          else (case encode query_text of
                  None \<Rightarrow> []
                | Some query_embedding \<Rightarrow>
                    (case semantic_candidates query_embedding clauses of
                       None \<Rightarrow> []
                     | Some candidates \<Rightarrow> take max_candidates (sort_by_score candidates))))"

subsection \<open>The fuzzy tier\<close>

definition words :: "string \<Rightarrow> string set" where
  \<comment> \<open>\<^verbatim>\<open>set(s.lower().split())\<close>\<close>
  "words s = set (split (lower s))"

definition jaccard :: "string \<Rightarrow> string \<Rightarrow> real" where
  "jaccard query_text clause_text' =
     real (card (words query_text \<inter> words clause_text'))
       / real (card (words query_text \<union> words clause_text'))"

definition fuzzy_candidate :: "string \<Rightarrow> clause \<Rightarrow> clause_candidate" where
  "fuzzy_candidate query_text c =
     \<lparr>clause_ref = cl_ref c, clause_text = truncate_text (cl_text c),
      similarity_score = jaccard query_text (cl_text c), match_type = ''fuzzy''\<rparr>"

definition fuzzy_keep :: "string \<Rightarrow> clause \<Rightarrow> bool" where
  \<comment> \<open>\<^verbatim>\<open>if union > 0\<close> and \<^verbatim>\<open>if jaccard_sim > 0.1\<close>\<close>
  "fuzzy_keep query_text c =
     (card (words query_text \<union> words (cl_text c)) > 0 \<and> jaccard query_text (cl_text c) > 0.1)"

definition fuzzy_text_matching :: "string \<Rightarrow> clause list \<Rightarrow> clause_candidate list" where
  "fuzzy_text_matching query_text clauses =
     take max_candidates
       (sort_by_score (map (fuzzy_candidate query_text) (filter (fuzzy_keep query_text) clauses)))"

subsection \<open>The cascade\<close>

definition exact_match :: "string \<Rightarrow> clause \<Rightarrow> bool" where
  \<comment> \<open>\<^verbatim>\<open>mention.lower() in clause['ref'].lower() or clause['ref'].lower() in mention.lower()\<close>\<close>
  "exact_match mention c =
     (py_in (lower mention) (lower (cl_ref c)) \<or> py_in (lower (cl_ref c)) (lower mention))"

definition exact_candidate :: "clause \<Rightarrow> clause_candidate" where
  "exact_candidate c =
     \<lparr>clause_ref = cl_ref c, clause_text = truncate_text (cl_text c),
      similarity_score = 1, match_type = ''exact''\<rparr>"

definition exact_candidates :: "string list \<Rightarrow> clause list \<Rightarrow> clause_candidate list" where
  \<comment> \<open>the two nested loops of step 3: mentions outside, clauses inside\<close>
  "exact_candidates mentions clauses =
     concat (map (\<lambda>mention. map exact_candidate (filter (exact_match mention) clauses)) mentions)"

definition add_ref :: "string list \<Rightarrow> string \<Rightarrow> string list" where
  \<comment> \<open>\<^verbatim>\<open>if ref not in final_clause_refs: final_clause_refs.append(ref)\<close>\<close>
  "add_ref refs r = (if r \<in> set refs then refs else refs @ [r])"

definition add_refs :: "string list \<Rightarrow> clause_candidate list \<Rightarrow> string list" where
  "add_refs refs cands = foldl add_ref refs (map clause_ref cands)"

definition max_score :: "clause_candidate list \<Rightarrow> real" where
  \<comment> \<open>\<^verbatim>\<open>max(c.similarity_score for c in all_candidates)\<close>, called on a non-empty list only\<close>
  "max_score cands = Max (set (map similarity_score cands))"

text \<open>
  The response comes with the list of matching steps that ran, in order. The list is not
  part of the response of the code; it records which of the matching loop of step 3,
  \<^verbatim>\<open>semantic_similarity_search\<close> and \<^verbatim>\<open>fuzzy_text_matching\<close> were entered.
\<close>

datatype tier = DirectMatch | SemanticSearch | FuzzyMatch

definition empty_response :: link_response where
  "empty_response = \<lparr>clause_candidates = [], detailed_matches = [], confidence = 0\<rparr>"

definition candidates_before_fuzzy ::
    "encoder option \<Rightarrow> string \<Rightarrow> clause list \<Rightarrow> clause_candidate list" where
  \<comment> \<open>\<^verbatim>\<open>all_candidates\<close> after steps 3 and 4\<close>
  "candidates_before_fuzzy embedding_model text' clauses =
     (let direct_mentions = find_direct_mentions text';
          all_candidates = (if direct_mentions \<noteq> [] then exact_candidates direct_mentions clauses else [])
      in if all_candidates = []
         then all_candidates @ semantic_similarity_search embedding_model text' clauses
         else all_candidates)"

definition fuzzy_runs :: "clause_candidate list \<Rightarrow> bool" where
  \<comment> \<open>\<^verbatim>\<open>not all_candidates or max(...) < 0.5\<close>\<close>
  "fuzzy_runs all_candidates = (all_candidates = [] \<or> max_score all_candidates < 0.5)"

definition link_comment_to_clauses ::
    "encoder option \<Rightarrow> database \<Rightarrow> string \<Rightarrow> string \<Rightarrow> link_response \<times> tier list" where
  "link_comment_to_clauses embedding_model db text' draft_id =
     (let direct_mentions = find_direct_mentions text';
          clauses = get_draft_clauses db draft_id
      in if clauses = [] then (empty_response, [])
         else
           let exact = (if direct_mentions \<noteq> [] then exact_candidates direct_mentions clauses else []);
               ran3 = (if direct_mentions \<noteq> [] then [DirectMatch] else []);
               semantic = (if exact = [] then semantic_similarity_search embedding_model text' clauses else []);
               ran4 = (if exact = [] then [SemanticSearch] else []);
               before_fuzzy = exact @ semantic;
               fuzzy = (if fuzzy_runs before_fuzzy then fuzzy_text_matching text' clauses else []);
               ran5 = (if fuzzy_runs before_fuzzy then [FuzzyMatch] else []);
               all_candidates = before_fuzzy @ fuzzy;
               final_clause_refs = add_refs (add_refs (add_refs [] exact) semantic) fuzzy;
               confidence' = (if all_candidates \<noteq> [] then min (max_score all_candidates) 1 else 0)
           in (\<lparr>clause_candidates = take max_candidates final_clause_refs,
                detailed_matches = take max_candidates all_candidates,
                confidence = confidence'\<rparr>,
               ran3 @ ran4 @ ran5))"

section \<open>The coordinator\<close>

subsection \<open>Storage\<close>

text \<open>
  The rows the coordinator (\<^verbatim>\<open>app/services/coordinator.py\<close>) reads and writes, with the
  columns of the initial migration that it touches; a nullable column is an \<open>option\<close>. No
  table has a uniqueness constraint on \<^verbatim>\<open>comment_id\<close>, so a table is a list of rows and
  \<^verbatim>\<open>query(...).filter(...).first()\<close> is the first row that satisfies the filter.
\<close>

record comment_raw =
  cr_id :: string
  cr_draft_id :: string
  cr_text_raw :: string
  cr_lang :: "string option"
  cr_pii_masked :: "string option"

record comment_processed =
  cp_comment_id :: string
  cp_text_normalized :: string
  cp_clause_guesses :: "string list"
  cp_embedding :: "real list option"

record prediction =
  pr_comment_id :: string
  pr_sentiment_label :: "string option"
  pr_sentiment_score :: "real option"
  pr_sentiment_intensity :: "real option"
  pr_stance :: "string option"
  pr_aspects :: "string list"
  pr_confidence :: real
  pr_model_version :: string
  pr_ci_low :: "real option"
  pr_ci_high :: "real option"

record summary =
  sm_comment_id :: string
  sm_summary_text :: string
  sm_confidence :: real
  sm_model_version :: string

record audit =
  au_entity :: string
  au_entity_id :: string
  au_change_type :: string
  au_change_data :: "(string \<times> real) list"
  au_user_id :: string

record storage =
  comments_raw :: "comment_raw list"
  comments_processed :: "comment_processed list"
  predictions :: "prediction list"
  summaries :: "summary list"
  audits :: "audit list"

fun upd_first :: "('a \<Rightarrow> bool) \<Rightarrow> ('a \<Rightarrow> 'a) \<Rightarrow> 'a list \<Rightarrow> 'a list" where
  \<comment> \<open>the row \<open>first()\<close> returned, changed in place\<close>
  "upd_first P f [] = []"
| "upd_first P f (x # xs) = (if P x then f x # xs else x # upd_first P f xs)"

text \<open>
  Modelled from the spec: the session factory \<^verbatim>\<open>SessionLocal\<close> of \<^verbatim>\<open>app.core.database\<close>,
  which is not among the sources. The spec has the writes of a run commit "atomically as a
  single storage transaction at the end of a successful run" and has them rolled back on a
  terminating error; the clause linker builds its own factory with \<^verbatim>\<open>autocommit=False\<close>,
  and the coordinator's own \<^verbatim>\<open>db.commit()\<close> and \<^verbatim>\<open>db.rollback()\<close> presuppose an open
  transaction. A
  session is therefore the committed storage together with the view of the open
  transaction: \<^verbatim>\<open>add\<close>, attribute assignments and \<^verbatim>\<open>flush\<close> change the view only,
  \<^verbatim>\<open>commit\<close> makes the view the committed storage, \<^verbatim>\<open>rollback\<close> and \<^verbatim>\<open>close\<close> drop
  what was not committed.
\<close>

record session =
  committed :: storage
  pending :: storage

definition SessionLocal :: "storage \<Rightarrow> session" where
  "SessionLocal st = \<lparr>committed = st, pending = st\<rparr>"

definition db_write :: "(storage \<Rightarrow> storage) \<Rightarrow> session \<Rightarrow> session" where
  "db_write f db = db\<lparr>pending := f (pending db)\<rparr>"

definition db_flush :: "session \<Rightarrow> session" where
  "db_flush db = db"

definition db_commit :: "session \<Rightarrow> session" where
  "db_commit db = db\<lparr>committed := pending db\<rparr>"

definition db_rollback :: "session \<Rightarrow> session" where
  "db_rollback db = db\<lparr>pending := committed db\<rparr>"

definition db_close :: "session \<Rightarrow> storage" where
  \<comment> \<open>what is in storage once the session is closed\<close>
  "db_close db = committed db"

subsection \<open>Tool clients\<close>

text \<open>
  The replies of the four tools, typed by the response models the tools declare
  (\<^verbatim>\<open>ProcessResponse\<close>, \<^verbatim>\<open>LinkResponse\<close>, \<^verbatim>\<open>ClassifyResponse\<close>, \<^verbatim>\<open>SummarizeResponse\<close>): every
  key the coordinator reads is present in such a reply, so none of the defaults of its
  \<^verbatim>\<open>.get\<close> calls applies and a reply is never an empty dictionary. A call either raises in
  the HTTP client (the service is unreachable, or the timeout passes) or returns a response
  with a status code.
\<close>

record ingest_response =
  ing_pii_masked :: string
  ing_language :: "string option"
  ing_normalized_text :: string
  ing_embedding :: "real list option"
  ing_confidence :: real

record classify_response =
  cls_sentiment_label :: string
  cls_sentiment_score :: real
  cls_sentiment_intensity :: real
  cls_stance :: string
  cls_aspects :: "string list"
  cls_confidence :: real
  cls_model_version :: string
  cls_ci_low :: "real option"
  cls_ci_high :: "real option"

record summarize_response =
  sum_summary :: string
  sum_confidence :: real
  sum_model_version :: string
  sum_word_count :: int
  sum_compression_ratio :: real

datatype 'a http = ConnectError | TimeoutError | Response nat 'a

record tools =
  ingest_tool :: "string \<Rightarrow> ingest_response http"
  clause_linker_tool :: "string \<Rightarrow> string \<Rightarrow> link_response http"
  classify_tool :: "string \<Rightarrow> string option \<Rightarrow> classify_response http"
  summarize_tool :: "string \<Rightarrow> string option \<Rightarrow> summarize_response http"

definition call_tool :: "'a http \<Rightarrow> 'a option" where
  \<comment> \<open>the body shared by the four \<^verbatim>\<open>_call_*\<close> methods: the JSON of a response with status
      200, \<^verbatim>\<open>None\<close> for any other status and for an exception of the client\<close>
  "call_tool reply =
     (case reply of
        Response status_code body \<Rightarrow> if status_code = 200 then Some body else None
      | _ \<Rightarrow> None)"

definition call_ingest_tool :: "tools \<Rightarrow> string \<Rightarrow> ingest_response option" where
  "call_ingest_tool t text' = call_tool (ingest_tool t text')"

definition call_clause_linker :: "tools \<Rightarrow> string \<Rightarrow> string \<Rightarrow> link_response option" where
  "call_clause_linker t text' draft_id = call_tool (clause_linker_tool t text' draft_id)"

definition call_classify_tool :: "tools \<Rightarrow> string \<Rightarrow> string option \<Rightarrow> classify_response option" where
  "call_classify_tool t text' language = call_tool (classify_tool t text' language)"

definition call_summarize_tool :: "tools \<Rightarrow> string \<Rightarrow> string option \<Rightarrow> summarize_response option" where
  "call_summarize_tool t text' clause_ref' = call_tool (summarize_tool t text' clause_ref')"

subsection \<open>Results\<close>

text \<open>
  The dictionaries \<^verbatim>\<open>process_comment\<close> returns: \<^verbatim>\<open>status\<close> \<^verbatim>\<open>already_processed\<close> with
  the comment id; \<^verbatim>\<open>success\<close> with the comment id, confidence, sentiment, stance and
  clauses; \<^verbatim>\<open>error\<close> with the comment id, error type and details.
\<close>

datatype outcome =
    AlreadyProcessed string
  | Success string real string string "string list"
  | Error string string string

definition create_error_result :: "string \<Rightarrow> string \<Rightarrow> string \<Rightarrow> outcome" where
  "create_error_result comment_id error_type details = Error comment_id error_type details"

fun error_type_of :: "outcome \<Rightarrow> string option" where
  "error_type_of (Error comment_id error_type details) = Some error_type"
| "error_type_of _ = None"

text \<open>
  Besides its result a run leaves the storage as it is after \<^verbatim>\<open>db.close()\<close>, the tool
  calls it made, in order, and the jobs it handed to the task queue.
\<close>

datatype tool_call =
    CallIngest string
  | CallClauseLinker string string
  | CallClassify string "string option"
  | CallSummarize string "string option"

datatype job = DeduplicateComments string | ExtractKeywords string

record run =
  result :: outcome
  db_after :: storage
  calls :: "tool_call list"
  jobs :: "job list"

definition is_summarize :: "tool_call \<Rightarrow> bool" where
  "is_summarize c = (case c of CallSummarize _ _ \<Rightarrow> True | _ \<Rightarrow> False)"

subsection \<open>The pipeline\<close>

definition upsert_processed ::
    "comment_processed option \<Rightarrow> string \<Rightarrow> ingest_response \<Rightarrow> string list \<Rightarrow> comment_processed" where
  \<comment> \<open>the processed record: the existing row with text and guesses replaced (its embedding
      stays), or a new row\<close>
  "upsert_processed existing_processed comment_id ingest_result clause_guesses =
     (case existing_processed of
        Some processed \<Rightarrow>
          processed\<lparr>cp_text_normalized := ing_normalized_text ingest_result,
                    cp_clause_guesses := clause_guesses\<rparr>
      | None \<Rightarrow>
          \<lparr>cp_comment_id = comment_id,
           cp_text_normalized = ing_normalized_text ingest_result,
           cp_clause_guesses = clause_guesses,
           cp_embedding = ing_embedding ingest_result\<rparr>)"

definition store_processed ::
    "comment_processed option \<Rightarrow> comment_processed \<Rightarrow> storage \<Rightarrow> storage" where
  "store_processed existing_processed processed s =
     (case existing_processed of
        Some _ \<Rightarrow>
          s\<lparr>comments_processed :=
              upd_first (\<lambda>p. cp_comment_id p = cp_comment_id processed) (\<lambda>_. processed)
                (comments_processed s)\<rparr>
      | None \<Rightarrow> s\<lparr>comments_processed := comments_processed s @ [processed]\<rparr>)"

definition set_prediction :: "classify_response \<Rightarrow> prediction \<Rightarrow> prediction" where
  \<comment> \<open>\<^verbatim>\<open>prediction_data\<close> written into a row\<close>
  "set_prediction classify_result p =
     p\<lparr>pr_sentiment_label := Some (cls_sentiment_label classify_result),
       pr_sentiment_score := Some (cls_sentiment_score classify_result),
       pr_sentiment_intensity := Some (cls_sentiment_intensity classify_result),
       pr_stance := Some (cls_stance classify_result),
       pr_aspects := cls_aspects classify_result,
       pr_confidence := cls_confidence classify_result,
       pr_model_version := cls_model_version classify_result,
       pr_ci_low := cls_ci_low classify_result,
       pr_ci_high := cls_ci_high classify_result\<rparr>"

definition new_prediction :: "string \<Rightarrow> classify_response \<Rightarrow> prediction" where
  "new_prediction comment_id classify_result =
     \<lparr>pr_comment_id = comment_id,
      pr_sentiment_label = Some (cls_sentiment_label classify_result),
      pr_sentiment_score = Some (cls_sentiment_score classify_result),
      pr_sentiment_intensity = Some (cls_sentiment_intensity classify_result),
      pr_stance = Some (cls_stance classify_result),
      pr_aspects = cls_aspects classify_result,
      pr_confidence = cls_confidence classify_result,
      pr_model_version = cls_model_version classify_result,
      pr_ci_low = cls_ci_low classify_result,
      pr_ci_high = cls_ci_high classify_result\<rparr>"

definition store_prediction :: "string \<Rightarrow> classify_response \<Rightarrow> storage \<Rightarrow> storage" where
  "store_prediction comment_id classify_result s =
     (case find (\<lambda>p. pr_comment_id p = comment_id) (predictions s) of
        Some _ \<Rightarrow>
          s\<lparr>predictions :=
              upd_first (\<lambda>p. pr_comment_id p = comment_id) (set_prediction classify_result)
                (predictions s)\<rparr>
      | None \<Rightarrow> s\<lparr>predictions := predictions s @ [new_prediction comment_id classify_result]\<rparr>)"

definition store_summary :: "string \<Rightarrow> summarize_response \<Rightarrow> storage \<Rightarrow> storage" where
  "store_summary comment_id summary_result s =
     (case find (\<lambda>x. sm_comment_id x = comment_id) (summaries s) of
        Some _ \<Rightarrow>
          s\<lparr>summaries :=
              upd_first (\<lambda>x. sm_comment_id x = comment_id)
                (\<lambda>x. x\<lparr>sm_summary_text := sum_summary summary_result,
                        sm_confidence := sum_confidence summary_result,
                        sm_model_version := sum_model_version summary_result\<rparr>)
                (summaries s)\<rparr>
      | None \<Rightarrow>
          s\<lparr>summaries := summaries s @
              [\<lparr>sm_comment_id = comment_id,
                sm_summary_text = sum_summary summary_result,
                sm_confidence = sum_confidence summary_result,
                sm_model_version = sum_model_version summary_result\<rparr>]\<rparr>)"

definition low_confidence_audit :: "string \<Rightarrow> real \<Rightarrow> real \<Rightarrow> audit" where
  "low_confidence_audit comment_id confidence' threshold =
     \<lparr>au_entity = ''comment'', au_entity_id = comment_id, au_change_type = ''low_confidence'',
      au_change_data = [(''confidence'', confidence'), (''threshold'', threshold)],
      au_user_id = ''system''\<rparr>"

definition audit_log :: "audit \<Rightarrow> storage \<Rightarrow> storage" where
  "audit_log a s = s\<lparr>audits := audits s @ [a]\<rparr>"

definition trigger_post_processing :: "string \<Rightarrow> job list" where
  "trigger_post_processing draft_id = [DeduplicateComments draft_id, ExtractKeywords draft_id]"

definition guesses_of :: "link_response option \<Rightarrow> string list" where
  \<comment> \<open>\<^verbatim>\<open>clause_result.get("clause_candidates", []) if clause_result else []\<close>\<close>
  "guesses_of clause_result =
     (case clause_result of Some r \<Rightarrow> clause_candidates r | None \<Rightarrow> [])"

definition first_or_none :: "string list \<Rightarrow> string option" where
  \<comment> \<open>\<^verbatim>\<open>clause_guesses[0] if clause_guesses else None\<close>\<close>
  "first_or_none clause_guesses = (case clause_guesses of [] \<Rightarrow> None | r # _ \<Rightarrow> Some r)"

definition except_exception :: "string \<Rightarrow> session \<Rightarrow> string \<Rightarrow> tool_call list \<Rightarrow> run" where
  \<comment> \<open>the handler \<^verbatim>\<open>except Exception as e\<close>, the same for every exception: roll back and
      report \<^verbatim>\<open>processing_failed\<close> with \<^verbatim>\<open>str(e)\<close>\<close>
  "except_exception comment_id db e calls_made =
     \<lparr>result = create_error_result comment_id ''processing_failed'' e,
      db_after = db_close (db_rollback db), calls = calls_made, jobs = []\<rparr>"

text \<open>
  \<^verbatim>\<open>CoordinatorAgent.process_comment\<close>, for a coordinator whose \<^verbatim>\<open>confidence_threshold\<close>
  is \<open>threshold\<close>. Every \<^verbatim>\<open>return\<close> passes through \<^verbatim>\<open>finally: db.close()\<close>. The one
  \<^verbatim>\<open>raise\<close> of the function, the \<^verbatim>\<open>ValueError\<close> of an unknown comment, is caught by its
  own \<^verbatim>\<open>except Exception\<close>. Storage and task queue are taken to answer: an exception
  raised inside them is not part of the model.
\<close>

definition process_comment :: "real \<Rightarrow> tools \<Rightarrow> storage \<Rightarrow> string \<Rightarrow> bool \<Rightarrow> run" where
  "process_comment threshold t st comment_id force_reprocess =
    (let db = SessionLocal st in
     case find (\<lambda>c. cr_id c = comment_id) (comments_raw (pending db)) of
       None \<Rightarrow> except_exception comment_id db (''Comment '' @ comment_id @ '' not found'') []
     | Some comment \<Rightarrow>
        let existing_processed =
              find (\<lambda>p. cp_comment_id p = cr_id comment) (comments_processed (pending db))
        in if existing_processed \<noteq> None \<and> \<not> force_reprocess
           then \<lparr>result = AlreadyProcessed comment_id, db_after = db_close db, calls = [], jobs = []\<rparr>
           else
            let calls1 = [CallIngest (cr_text_raw comment)] in
            case call_ingest_tool t (cr_text_raw comment) of
              None \<Rightarrow>
                \<lparr>result = create_error_result comment_id ''ingest_failed'' [],
                 db_after = db_close db, calls = calls1, jobs = []\<rparr>
            | Some ingest_result \<Rightarrow>
               let pii_masked = ing_pii_masked ingest_result;
                   lang = ing_language ingest_result;
                   db = db_write (\<lambda>s. s\<lparr>comments_raw :=
                          upd_first (\<lambda>c. cr_id c = comment_id)
                            (\<lambda>c. c\<lparr>cr_pii_masked := Some pii_masked, cr_lang := lang\<rparr>)
                            (comments_raw s)\<rparr>) db;
                   calls2 = calls1 @ [CallClauseLinker pii_masked (cr_draft_id comment)];
                   clause_result = call_clause_linker t pii_masked (cr_draft_id comment);
                   clause_guesses = guesses_of clause_result;
                   processed =
                     upsert_processed existing_processed (cr_id comment) ingest_result clause_guesses;
                   db = db_flush (db_write (store_processed existing_processed processed) db);
                   calls3 = calls2 @ [CallClassify (cp_text_normalized processed) lang]
               in
               case call_classify_tool t (cp_text_normalized processed) lang of
                 None \<Rightarrow>
                   \<lparr>result = create_error_result comment_id ''classify_failed'' [],
                    db_after = db_close db, calls = calls3, jobs = []\<rparr>
               | Some classify_result \<Rightarrow>
                  let confidence' = cls_confidence classify_result;
                      db = db_write (store_prediction (cp_comment_id processed) classify_result) db;
                      db = (if confidence' < threshold
                            then db_write (audit_log
                                   (low_confidence_audit comment_id confidence' threshold)) db
                            else db);
                      summarize = (confidence' \<ge> threshold \<or> force_reprocess);
                      clause_ref' = first_or_none clause_guesses;
                      calls4 = (if summarize
                                then calls3 @ [CallSummarize (cp_text_normalized processed) clause_ref']
                                else calls3);
                      db = (if summarize
                            then (case call_summarize_tool t (cp_text_normalized processed) clause_ref' of
                                    Some summary_result \<Rightarrow>
                                      db_write (store_summary (cp_comment_id processed) summary_result) db
                                  | None \<Rightarrow> db)
                            else db);
                      db = db_commit db
                  in \<lparr>result = Success comment_id confidence'
                                  (cls_sentiment_label classify_result)
                                  (cls_stance classify_result) clause_guesses,
                      db_after = db_close db, calls = calls4,
                      jobs = trigger_post_processing (cr_draft_id comment)\<rparr>)"

section \<open>Example data\<close>

text \<open>
  A draft \<open>d1\<close> with two clauses, the one of the end-to-end scenario of the
  specification among them, a draft \<open>d3\<close> with an embedded clause, and a draft \<open>d8\<close>
  whose Rule 8 has six sub-clauses.
\<close>

definition rule_8_2 :: clause where
  "rule_8_2 = \<lparr>cl_ref = ''Rule 8(2)'', cl_text = ''Filing deadline shall be 30 days'',
               cl_embedding = None\<rparr>"

definition rule_9 :: clause where
  "rule_9 = \<lparr>cl_ref = ''Rule 9'', cl_text = ''The appeal deadline is too short'',
             cl_embedding = None\<rparr>"

definition sub_clause :: "string \<Rightarrow> clause" where
  "sub_clause n = \<lparr>cl_ref = ''Rule 8('' @ n @ '')'', cl_text = ''Sub-clause '' @ n,
                   cl_embedding = None\<rparr>"

definition as_row :: "string \<Rightarrow> clause \<Rightarrow> clause_row" where
  "as_row draft_id c =
     \<lparr>row_draft_id = draft_id, row_ref = cl_ref c, row_text = cl_text c,
      row_embedding = cl_embedding c\<rparr>"

definition rule_3 :: clause where
  "rule_3 = \<lparr>cl_ref = ''Rule 3'', cl_text = ''Appeals go to the tribunal'',
             cl_embedding = Some [1, 0]\<rparr>"

definition rule_4 :: clause where
  "rule_4 = \<lparr>cl_ref = ''Rule 4'', cl_text = ''The deadline is short'', cl_embedding = None\<rparr>"

definition example_db :: database where
  "example_db =
     Rows (map (as_row ''d1'') [rule_8_2, rule_9]
           @ map (as_row ''d3'') [rule_3, rule_4]
           @ map (as_row ''d8'') (map sub_clause [''1'', ''2'', ''3'', ''4'', ''5'', ''6'']))"



definition failing_encoder :: encoder where
  \<comment> \<open>an embedding model whose \<^verbatim>\<open>encode\<close> raises\<close>
  "failing_encoder query_text = None"

definition short_deadline :: string where
  "short_deadline = ''The deadline is too short''"

definition short_deadline_rule :: string where
  "short_deadline_rule = ''The deadline in Rule 8(2) is too short''"

text \<open>
  A comment on draft \<open>d1\<close>, four tools that answer, and tools that do not. The clause
  linker tool answers with what the linker above finds among the clauses of the example
  database; the classifier is as confident as the end-to-end scenario of the specification
  has it (0.82, against the default threshold 0.7 of the settings).
\<close>

definition default_threshold :: real where
  \<comment> \<open>\<^verbatim>\<open>confidence_threshold: float = 0.7\<close>\<close>
  "default_threshold = 0.7"

definition example_comment :: comment_raw where
  "example_comment =
     \<lparr>cr_id = ''c1'', cr_draft_id = ''d1'', cr_text_raw = short_deadline_rule,
      cr_lang = None, cr_pii_masked = None\<rparr>"

definition fresh_storage :: storage where
  "fresh_storage =
     \<lparr>comments_raw = [example_comment], comments_processed = [], predictions = [],
      summaries = [], audits = []\<rparr>"

definition processed_storage :: storage where
  "processed_storage =
     fresh_storage\<lparr>comments_processed :=
       [\<lparr>cp_comment_id = ''c1'', cp_text_normalized = short_deadline_rule,
         cp_clause_guesses = [''Rule 8(2)''], cp_embedding = None\<rparr>]\<rparr>"

definition ingest_ok :: "string \<Rightarrow> ingest_response http" where
  "ingest_ok text' =
     Response 200 \<lparr>ing_pii_masked = text', ing_language = Some ''en'',
                   ing_normalized_text = text', ing_embedding = None, ing_confidence = 1\<rparr>"

definition linker_ok :: "string \<Rightarrow> string \<Rightarrow> link_response http" where
  "linker_ok text' draft_id = Response 200 (fst (link_comment_to_clauses None example_db text' draft_id))"

definition empty_linker :: "string \<Rightarrow> string \<Rightarrow> link_response http" where
  \<comment> \<open>a linker that answers and finds nothing\<close>
  "empty_linker text' draft_id =
     Response 200 \<lparr>clause_candidates = [], detailed_matches = [], confidence = 0\<rparr>"

definition linker_down :: "string \<Rightarrow> string \<Rightarrow> link_response http" where
  "linker_down text' draft_id = TimeoutError"

definition classification :: "real \<Rightarrow> classify_response" where
  "classification c =
     \<lparr>cls_sentiment_label = ''negative'', cls_sentiment_score = - 0.6,
      cls_sentiment_intensity = 0.6, cls_stance = ''opposes'', cls_aspects = [''timeline''],
      cls_confidence = c, cls_model_version = ''v1'', cls_ci_low = None, cls_ci_high = None\<rparr>"

definition classify_ok :: "string \<Rightarrow> string option \<Rightarrow> classify_response http" where
  "classify_ok text' language = Response 200 (classification 0.82)"

definition classify_at_threshold :: "string \<Rightarrow> string option \<Rightarrow> classify_response http" where
  "classify_at_threshold text' language = Response 200 (classification 0.7)"

definition classify_unsure :: "string \<Rightarrow> string option \<Rightarrow> classify_response http" where
  "classify_unsure text' language = Response 200 (classification 0.5)"

definition classify_down :: "string \<Rightarrow> string option \<Rightarrow> classify_response http" where
  "classify_down text' language = ConnectError"

definition summarize_ok :: "string \<Rightarrow> string option \<Rightarrow> summarize_response http" where
  "summarize_ok text' clause_ref' =
     Response 200 \<lparr>sum_summary = ''The commenter opposes the deadline.'', sum_confidence = 0.8,
                   sum_model_version = ''v1'', sum_word_count = 5, sum_compression_ratio = 0.6\<rparr>"

definition summarize_down :: "string \<Rightarrow> string option \<Rightarrow> summarize_response http" where
  "summarize_down text' clause_ref' =
     Response 503 \<lparr>sum_summary = [], sum_confidence = 0, sum_model_version = [],
                   sum_word_count = 0, sum_compression_ratio = 0\<rparr>"

definition example_tools :: tools where
  "example_tools =
     \<lparr>ingest_tool = ingest_ok, clause_linker_tool = linker_ok,
      classify_tool = classify_ok, summarize_tool = summarize_ok\<rparr>"

definition ingested :: ingest_response where
  \<comment> \<open>what \<open>ingest_ok\<close> answers for the example comment\<close>
  "ingested =
     \<lparr>ing_pii_masked = short_deadline_rule, ing_language = Some ''en'',
      ing_normalized_text = short_deadline_rule, ing_embedding = None, ing_confidence = 1\<rparr>"

definition tools_classify_down :: tools where
  "tools_classify_down = example_tools\<lparr>classify_tool := classify_down\<rparr>"

definition tools_at_threshold :: tools where
  "tools_at_threshold = example_tools\<lparr>classify_tool := classify_at_threshold\<rparr>"

definition tools_unsure :: tools where
  "tools_unsure = example_tools\<lparr>classify_tool := classify_unsure\<rparr>"

definition tools_summarize_down :: tools where
  "tools_summarize_down = example_tools\<lparr>summarize_tool := summarize_down\<rparr>"

definition tools_linker_down :: tools where
  "tools_linker_down = example_tools\<lparr>clause_linker_tool := linker_down\<rparr>"

section \<open>Properties of the clause linker\<close>

subsection \<open>Every score is at most 1\<close>

lemma two_ab_le:
  fixes a b S X Y :: real
  assumes "S\<^sup>2 \<le> X * Y" "0 \<le> X" "0 \<le> Y"
  shows "2 * a * b * S \<le> a\<^sup>2 * Y + b\<^sup>2 * X"
proof -
  have S: "\<bar>S\<bar> \<le> sqrt X * sqrt Y"
    using assms by (metis real_sqrt_abs real_sqrt_le_mono real_sqrt_mult)
  define u where "u = \<bar>a\<bar> * sqrt Y"
  define v where "v = \<bar>b\<bar> * sqrt X"
  have uv: "2 * u * v \<le> u\<^sup>2 + v\<^sup>2"
    using sum_squares_bound [of u v] by simp
  have u2: "u\<^sup>2 = a\<^sup>2 * Y" using assms by (simp add: u_def power_mult_distrib)
  have v2: "v\<^sup>2 = b\<^sup>2 * X" using assms by (simp add: v_def power_mult_distrib)
  have "2 * a * b * S \<le> 2 * (\<bar>a\<bar> * \<bar>b\<bar>) * \<bar>S\<bar>"
    by (metis abs_ge_self abs_mult abs_numeral mult.assoc)
  also have "\<dots> \<le> 2 * (\<bar>a\<bar> * \<bar>b\<bar>) * (sqrt X * sqrt Y)"
    using S by (intro mult_left_mono) auto
  also have "\<dots> = 2 * u * v" by (simp add: u_def v_def)
  finally show ?thesis using uv u2 v2 by linarith
qed

lemma sum_sq_nonneg: "0 \<le> sum_list (map (\<lambda>x. x * x) (xs :: real list))"
  by (induction xs) auto

lemma dot_sq_le:
  "length xs = length ys \<Longrightarrow>
   (dot xs ys)\<^sup>2 \<le> sum_list (map (\<lambda>x. x * x) xs) * sum_list (map (\<lambda>x. x * x) ys)"
proof (induction xs ys rule: list_induct2)
  case Nil
  then show ?case by (simp add: dot_def)
next
  case (Cons a xs b ys)
  let ?S = "dot xs ys" and ?X = "sum_list (map (\<lambda>x. x * x) xs)" and ?Y = "sum_list (map (\<lambda>x. x * x) ys)"
  have t: "2 * a * b * ?S \<le> a\<^sup>2 * ?Y + b\<^sup>2 * ?X"
    using two_ab_le [OF Cons.IH sum_sq_nonneg sum_sq_nonneg] .
  have "(dot (a # xs) (b # ys))\<^sup>2 = (a * b)\<^sup>2 + 2 * a * b * ?S + ?S\<^sup>2"
    by (simp add: dot_def power2_sum)
  also have "\<dots> \<le> (a * b)\<^sup>2 + (a\<^sup>2 * ?Y + b\<^sup>2 * ?X) + ?X * ?Y"
    using t Cons.IH by linarith
  also have "\<dots> = (a * a + ?X) * (b * b + ?Y)"
    by (simp add: algebra_simps power2_eq_square)
  finally show ?case by simp
qed

lemma cosine_le_1: "length q = length e \<Longrightarrow> cosine q e \<le> 1"
proof -
  assume len: "length q = length e"
  let ?X = "sum_list (map (\<lambda>x. x * x) q)" and ?Y = "sum_list (map (\<lambda>x. x * x) e)"
  have "dot q e \<le> \<bar>dot q e\<bar>" by simp
  also have "\<dots> = sqrt ((dot q e)\<^sup>2)" by simp
  also have "\<dots> \<le> sqrt (?X * ?Y)" using dot_sq_le [OF len] by (rule real_sqrt_le_mono)
  also have "\<dots> = norm2 q * norm2 e" by (simp add: norm2_def real_sqrt_mult)
  finally have d: "dot q e \<le> norm2 q * norm2 e" .
  have nn: "0 \<le> norm2 q * norm2 e" by (simp add: norm2_def sum_sq_nonneg)
  show ?thesis
  proof (cases "norm2 q * norm2 e = 0")
    case True
    have "cosine q e = dot q e / 0" unfolding cosine_def True ..
    then show ?thesis by simp
  next
    case False
    with nn have "0 < norm2 q * norm2 e" by linarith
    with d show ?thesis by (simp add: cosine_def)
  qed
qed

lemma jaccard_le_1: "jaccard a b \<le> 1"
proof -
  have fin: "finite (words a \<union> words b)" by (simp add: words_def)
  have "card (words a \<inter> words b) \<le> card (words a \<union> words b)"
    by (rule card_mono [OF fin]) auto
  then show ?thesis
    by (cases "card (words a \<union> words b) = 0") (simp_all add: jaccard_def)
qed

lemma fuzzy_keep_iff: "fuzzy_keep q c \<longleftrightarrow> jaccard q (cl_text c) > 0.1"
  by (cases "card (words q \<union> words (cl_text c)) = 0") (simp_all add: fuzzy_keep_def jaccard_def)

subsection \<open>Scores of the three tiers\<close>

lemma exact_candidates_mem:
  "x \<in> set (exact_candidates ms cs) \<longleftrightarrow>
     (\<exists>m \<in> set ms. \<exists>c \<in> set cs. exact_match m c \<and> x = exact_candidate c)"
  by (auto simp: exact_candidates_def)

lemma exact_candidates_score:
  "x \<in> set (exact_candidates ms cs) \<Longrightarrow> similarity_score x = 1 \<and> match_type x = ''exact''"
  by (auto simp: exact_candidates_mem exact_candidate_def)

lemma semantic_candidates_score:
  "semantic_candidates q cs = Some cands \<Longrightarrow> x \<in> set cands \<Longrightarrow>
     similarity_threshold < similarity_score x \<and> similarity_score x \<le> 1 \<and> match_type x = ''semantic''"
proof (induction cs arbitrary: cands)
  case Nil
  then show ?case by simp
next
  case (Cons c cs)
  show ?case
  proof (cases "cl_embedding c")
    case None
    with Cons show ?thesis by simp
  next
    case (Some e)
    show ?thesis
    proof (cases "e = []")
      case True
      with Some Cons show ?thesis by simp
    next
      case False
      with Some Cons.prems(1) have len: "length e = length q"
        by (auto split: if_splits)
      with Some False Cons.prems(1) obtain rest where
        rest: "semantic_candidates q cs = Some rest" and
        cands: "cands = (if cosine q e > similarity_threshold
                  then \<lparr>clause_ref = cl_ref c, clause_text = truncate_text (cl_text c),
                        similarity_score = cosine q e, match_type = ''semantic''\<rparr> # rest
                  else rest)"
        by (auto split: option.splits)
      show ?thesis
      proof (cases "x \<in> set rest")
        case True
        with Cons.IH [OF rest] show ?thesis by simp
      next
        case False
        with cands Cons.prems(2) have
          "cosine q e > similarity_threshold" and
          "x = \<lparr>clause_ref = cl_ref c, clause_text = truncate_text (cl_text c),
                 similarity_score = cosine q e, match_type = ''semantic''\<rparr>"
          by (auto split: if_splits)
        with cosine_le_1 [of q e] len show ?thesis by simp
      qed
    qed
  qed
qed

lemma semantic_search_score:
  assumes "x \<in> set (semantic_similarity_search em text' cs)"
  shows "similarity_score x \<le> 1 \<and> match_type x = ''semantic''"
proof (cases em)
  case None
  with assms show ?thesis by (simp add: semantic_similarity_search_def)
next
  case (Some enc)
  show ?thesis
  proof (cases "enc text'")
    case None
    with Some assms show ?thesis by (simp add: semantic_similarity_search_def split: if_splits)
  next
    case eq: (Some q)
    show ?thesis
    proof (cases "semantic_candidates q cs")
      case None
      with Some eq assms show ?thesis by (simp add: semantic_similarity_search_def split: if_splits)
    next
      case sc: (Some cands)
      with Some eq assms have "x \<in> set (take max_candidates (sort_by_score cands))"
        by (simp add: semantic_similarity_search_def split: if_splits)
      then have "x \<in> set cands"
        by (auto simp: sort_by_score_def dest: in_set_takeD)
      with semantic_candidates_score [OF sc] show ?thesis by simp
    qed
  qed
qed

lemma fuzzy_mem:
  "x \<in> set (fuzzy_text_matching q cs) \<Longrightarrow>
     \<exists>c \<in> set cs. x = fuzzy_candidate q c \<and> jaccard q (cl_text c) > 0.1"
  by (auto simp: fuzzy_text_matching_def sort_by_score_def fuzzy_keep_iff dest!: in_set_takeD)

lemma fuzzy_score:
  "x \<in> set (fuzzy_text_matching q cs) \<Longrightarrow> similarity_score x \<le> 1 \<and> match_type x = ''fuzzy''"
  using jaccard_le_1 by (auto dest!: fuzzy_mem simp: fuzzy_candidate_def)

lemma max_score_all_one:
  "xs \<noteq> [] \<Longrightarrow> \<forall>x \<in> set xs. similarity_score x = 1 \<Longrightarrow> max_score xs = 1"
proof -
  assume ne: "xs \<noteq> []" and one: "\<forall>x \<in> set xs. similarity_score x = 1"
  then have "set (map similarity_score xs) = {1}" by (cases xs) auto
  then show ?thesis by (simp add: max_score_def)
qed

lemma max_score_le_1:
  "xs \<noteq> [] \<Longrightarrow> \<forall>x \<in> set xs. similarity_score x \<le> 1 \<Longrightarrow> max_score xs \<le> 1"
  by (simp add: max_score_def)

subsection \<open>The list of references\<close>

lemma add_refs_Nil [simp]: "add_refs refs [] = refs"
  by (simp add: add_refs_def)



lemma length_foldl_add_ref: "length (foldl add_ref refs rs) \<le> length refs + length rs"
proof (induction rs arbitrary: refs)
  case Nil
  then show ?case by simp
next
  case (Cons r rs)
  have "length (foldl add_ref (add_ref refs r) rs) \<le> length (add_ref refs r) + length rs"
    by (rule Cons.IH)
  also have "\<dots> \<le> length refs + length (r # rs)" by (simp add: add_ref_def)
  finally show ?case by simp
qed

lemma length_add_refs: "length (add_refs [] cands) \<le> length cands"
  using length_foldl_add_ref [of "[]" "map clause_ref cands"] by (simp add: add_refs_def)

subsection \<open>The best of a sorted list\<close>



subsection \<open>The cascade as a whole\<close>

lemma link_exact:
  assumes ne: "exact_candidates (find_direct_mentions text') (get_draft_clauses db draft_id) \<noteq> []"
  shows "link_comment_to_clauses em db text' draft_id =
     (\<lparr>clause_candidates = take max_candidates (add_refs []
          (exact_candidates (find_direct_mentions text') (get_draft_clauses db draft_id))),
       detailed_matches = take max_candidates
          (exact_candidates (find_direct_mentions text') (get_draft_clauses db draft_id)),
       confidence = 1\<rparr>, [DirectMatch])"
proof -
  let ?ms = "find_direct_mentions text'" and ?cs = "get_draft_clauses db draft_id"
  from ne have ms: "?ms \<noteq> []" and cs: "?cs \<noteq> []"
    by (auto simp: exact_candidates_def)
  have mx: "max_score (exact_candidates ?ms ?cs) = 1"
    using ne by (intro max_score_all_one) (auto dest: exact_candidates_score)
  then have nf: "\<not> fuzzy_runs (exact_candidates ?ms ?cs)"
    using ne by (simp add: fuzzy_runs_def)
  show ?thesis
    using ne ms cs mx nf by (simp add: link_comment_to_clauses_def Let_def)
qed

lemma fuzzy_runs_Nil [simp]: "fuzzy_runs []"
  by (simp add: fuzzy_runs_def)

lemma exact_if:
  "(if ms \<noteq> [] then exact_candidates ms cs else []) = exact_candidates ms cs"
  by (simp add: exact_candidates_def)

lemma before_fuzzy_eq:
  "candidates_before_fuzzy em text' cs =
     exact_candidates (find_direct_mentions text') cs
       @ (if exact_candidates (find_direct_mentions text') cs = []
          then semantic_similarity_search em text' cs else [])"
  by (simp add: candidates_before_fuzzy_def Let_def exact_if)

lemma before_fuzzy_score:
  "x \<in> set (candidates_before_fuzzy em text' cs) \<Longrightarrow> similarity_score x \<le> 1"
  by (auto simp: before_fuzzy_eq split: if_splits
           dest: exact_candidates_score semantic_search_score)

lemma add_refs_append: "add_refs refs (xs @ ys) = add_refs (add_refs refs xs) ys"
  by (simp add: add_refs_def)

lemma link_unfold:
  fixes em :: "encoder option" and db :: database and text' draft_id :: string
  assumes cs: "get_draft_clauses db draft_id \<noteq> []"
  defines "before \<equiv> candidates_before_fuzzy em text' (get_draft_clauses db draft_id)"
  defines "fz \<equiv> (if fuzzy_runs before
                  then fuzzy_text_matching text' (get_draft_clauses db draft_id) else [])"
  shows "link_comment_to_clauses em db text' draft_id =
     (\<lparr>clause_candidates = take max_candidates (add_refs [] (before @ fz)),
       detailed_matches = take max_candidates (before @ fz),
       confidence = (if before @ fz = [] then 0 else min (max_score (before @ fz)) 1)\<rparr>,
      (if find_direct_mentions text' \<noteq> [] then [DirectMatch] else [])
        @ (if exact_candidates (find_direct_mentions text') (get_draft_clauses db draft_id) = []
           then [SemanticSearch] else [])
        @ (if fuzzy_runs before then [FuzzyMatch] else []))"
proof (cases "exact_candidates (find_direct_mentions text') (get_draft_clauses db draft_id) = []")
  case True
  then have b: "before = semantic_similarity_search em text' (get_draft_clauses db draft_id)"
    by (simp add: before_def before_fuzzy_eq)
  show ?thesis
  proof (cases "fuzzy_runs before")
    case fr: True
    with True cs b show ?thesis
      by (auto simp: link_comment_to_clauses_def Let_def exact_if fz_def add_refs_append)
  next
    case fr: False
    with True cs b show ?thesis
      by (auto simp: link_comment_to_clauses_def Let_def exact_if fz_def add_refs_append)
  qed
next
  case False
  then have b: "before = exact_candidates (find_direct_mentions text') (get_draft_clauses db draft_id)"
    by (simp add: before_def before_fuzzy_eq)
  show ?thesis
  proof (cases "fuzzy_runs before")
    case fr: True
    with False cs b show ?thesis
      by (auto simp: link_comment_to_clauses_def Let_def exact_if fz_def add_refs_append)
  next
    case fr: False
    with False cs b show ?thesis
      by (auto simp: link_comment_to_clauses_def Let_def exact_if fz_def add_refs_append)
  qed
qed

lemma link_general:
  fixes em :: "encoder option" and db :: database and text' draft_id :: string
  assumes cs: "get_draft_clauses db draft_id \<noteq> []"
  defines "before \<equiv> candidates_before_fuzzy em text' (get_draft_clauses db draft_id)"
  defines "fz \<equiv> (if fuzzy_runs before
                  then fuzzy_text_matching text' (get_draft_clauses db draft_id) else [])"
  shows "fst (link_comment_to_clauses em db text' draft_id) =
     \<lparr>clause_candidates = take max_candidates (add_refs [] (before @ fz)),
      detailed_matches = take max_candidates (before @ fz),
      confidence = (if before @ fz = [] then 0 else max_score (before @ fz))\<rparr>"
    and "FuzzyMatch \<in> set (snd (link_comment_to_clauses em db text' draft_id)) \<longleftrightarrow> fuzzy_runs before"
proof -
  have le: "\<forall>x \<in> set (before @ fz). similarity_score x \<le> 1"
    by (auto simp: before_def fz_def dest: before_fuzzy_score fuzzy_score split: if_splits)
  have conf: "before @ fz \<noteq> [] \<Longrightarrow> min (max_score (before @ fz)) 1 = max_score (before @ fz)"
    using max_score_le_1 [OF _ le] by (simp add: min_def)
  have unfold: "link_comment_to_clauses em db text' draft_id =
     (\<lparr>clause_candidates = take max_candidates (add_refs [] (before @ fz)),
       detailed_matches = take max_candidates (before @ fz),
       confidence = (if before @ fz = [] then 0 else min (max_score (before @ fz)) 1)\<rparr>,
      (if find_direct_mentions text' \<noteq> [] then [DirectMatch] else [])
        @ (if exact_candidates (find_direct_mentions text') (get_draft_clauses db draft_id) = []
           then [SemanticSearch] else [])
        @ (if fuzzy_runs before then [FuzzyMatch] else []))"
    unfolding before_def fz_def by (rule link_unfold [OF cs])
  show "fst (link_comment_to_clauses em db text' draft_id) =
     \<lparr>clause_candidates = take max_candidates (add_refs [] (before @ fz)),
      detailed_matches = take max_candidates (before @ fz),
      confidence = (if before @ fz = [] then 0 else max_score (before @ fz))\<rparr>"
  proof (cases "before @ fz = []")
    case True
    show ?thesis unfolding unfold fst_conv using True by simp
  next
    case False
    show ?thesis unfolding unfold fst_conv using False conf [OF False] by simp
  qed
  show "FuzzyMatch \<in> set (snd (link_comment_to_clauses em db text' draft_id)) \<longleftrightarrow> fuzzy_runs before"
    unfolding unfold snd_conv by simp
qed

lemma length_fuzzy: "length (fuzzy_text_matching q cs) \<le> max_candidates"
  by (simp add: fuzzy_text_matching_def)




lemma link_depends_on_semantic:
  assumes "semantic_similarity_search em1 text' (get_draft_clauses db draft_id)
           = semantic_similarity_search em2 text' (get_draft_clauses db draft_id)"
  shows "link_comment_to_clauses em1 db text' draft_id = link_comment_to_clauses em2 db text' draft_id"
  by (simp only: link_comment_to_clauses_def Let_def assms)

lemma semantic_failure:
  assumes "encode text' = None \<or> (\<exists>q. encode text' = Some q \<and> semantic_candidates q cs = None)"
  shows "semantic_similarity_search (Some encode) text' cs = []"
  using assms by (auto simp: semantic_similarity_search_def)

lemma link_fuzzy_alone:
  assumes cs: "get_draft_clauses db draft_id \<noteq> []"
    and ex: "exact_candidates (find_direct_mentions text') (get_draft_clauses db draft_id) = []"
    and sem: "semantic_similarity_search em text' (get_draft_clauses db draft_id) = []"
  shows "fst (link_comment_to_clauses em db text' draft_id) =
     \<lparr>clause_candidates = add_refs [] (fuzzy_text_matching text' (get_draft_clauses db draft_id)),
      detailed_matches = fuzzy_text_matching text' (get_draft_clauses db draft_id),
      confidence = (if fuzzy_text_matching text' (get_draft_clauses db draft_id) = [] then 0
                    else max_score (fuzzy_text_matching text' (get_draft_clauses db draft_id)))\<rparr>"
proof -
  let ?fz = "fuzzy_text_matching text' (get_draft_clauses db draft_id)"
  have b: "candidates_before_fuzzy em text' (get_draft_clauses db draft_id) = []"
    using ex sem by (simp add: before_fuzzy_eq)
  have l1: "length ?fz \<le> max_candidates" by (rule length_fuzzy)
  have l2: "length (add_refs [] ?fz) \<le> max_candidates"
    using length_add_refs [of ?fz] l1 by linarith
  show ?thesis
    using link_general(1) [OF cs, of em text'] l1 l2 by (simp add: b)
qed

subsection \<open>The example drafts, evaluated\<close>

lemma clauses_d1: "get_draft_clauses example_db ''d1'' = [rule_8_2, rule_9]"
  by (simp add: get_draft_clauses_def example_db_def as_row_def rule_8_2_def rule_9_def sub_clause_def)


lemma clauses_d2: "get_draft_clauses example_db ''d2'' = []"
  by (simp add: get_draft_clauses_def example_db_def as_row_def)

lemma mentions_short_deadline: "find_direct_mentions short_deadline = []"
  by code_simp

lemma mentions_short_deadline_rule: "find_direct_mentions short_deadline_rule = [''8(2)'']"
  by code_simp


lemma match_rule_8_2: "exact_match ''8(2)'' rule_8_2"
  by code_simp

lemma no_match_rule_9: "\<not> exact_match ''8(2)'' rule_9"
  by code_simp


lemma keep_rule_9: "fuzzy_keep short_deadline rule_9"
  by code_simp

lemma no_keep_rule_8_2: "\<not> fuzzy_keep short_deadline rule_8_2"
  by code_simp

lemma jaccard_rule_9: "jaccard short_deadline (cl_text rule_9) = 5 / 6"
  by code_simp


lemma exact_d1:
  "exact_candidates (find_direct_mentions short_deadline_rule) (get_draft_clauses example_db ''d1'')
     = [exact_candidate rule_8_2]"
  by (simp add: mentions_short_deadline_rule clauses_d1 exact_candidates_def
                match_rule_8_2 no_match_rule_9)


lemma fuzzy_d1:
  "fuzzy_text_matching short_deadline (get_draft_clauses example_db ''d1'')
     = [fuzzy_candidate short_deadline rule_9]"
  by (simp add: clauses_d1 fuzzy_text_matching_def keep_rule_9 no_keep_rule_8_2
                sort_by_score_def max_candidates_def)


lemma score_rule_9: "similarity_score (fuzzy_candidate short_deadline rule_9) = 5 / 6"
  by (simp add: fuzzy_candidate_def jaccard_rule_9)










section \<open>Properties of the coordinator\<close>

subsection \<open>The early exits\<close>

lemma find_cr_id: "find (\<lambda>c. cr_id c = comment_id) rows = Some comment \<Longrightarrow> cr_id comment = comment_id"
  by (auto simp: find_Some_iff)

lemma upsert_text [simp]:
  "cp_text_normalized (upsert_processed e cid ing g) = ing_normalized_text ing"
  by (simp add: upsert_processed_def split: option.splits)

lemma upsert_guesses [simp]:
  "cp_clause_guesses (upsert_processed e cid ing g) = g"
  by (simp add: upsert_processed_def split: option.splits)

lemma upsert_id:
  "e = find (\<lambda>p. cp_comment_id p = cid) rows \<Longrightarrow> cp_comment_id (upsert_processed e cid ing g) = cid"
  by (auto simp: upsert_processed_def find_Some_iff split: option.splits)

lemma session_simps [simp]:
  "pending (SessionLocal st) = st" "committed (SessionLocal st) = st"
  "pending (db_write f db) = f (pending db)" "committed (db_write f db) = committed db"
  "db_flush db = db"
  "db_close (db_commit db) = pending db"
  "db_close (db_rollback db) = committed db"
  "db_close (db_write f db) = committed db"
  "db_close (SessionLocal st) = st"
  by (simp_all add: SessionLocal_def db_write_def db_flush_def db_commit_def db_close_def db_rollback_def)

lemma process_not_found:
  assumes "find (\<lambda>c. cr_id c = comment_id) (comments_raw st) = None"
  shows "process_comment threshold t st comment_id force =
     \<lparr>result = Error comment_id ''processing_failed'' (''Comment '' @ comment_id @ '' not found''),
      db_after = st, calls = [], jobs = []\<rparr>"
  using assms by (simp add: process_comment_def except_exception_def create_error_result_def)

lemma process_already:
  assumes "find (\<lambda>c. cr_id c = comment_id) (comments_raw st) = Some comment"
    and "find (\<lambda>p. cp_comment_id p = comment_id) (comments_processed st) \<noteq> None"
  shows "process_comment threshold t st comment_id False =
     \<lparr>result = AlreadyProcessed comment_id, db_after = st, calls = [], jobs = []\<rparr>"
  using assms find_cr_id [OF assms(1)] by (simp add: process_comment_def)

lemma process_ingest_failed:
  assumes "find (\<lambda>c. cr_id c = comment_id) (comments_raw st) = Some comment"
    and "find (\<lambda>p. cp_comment_id p = comment_id) (comments_processed st) = None \<or> force"
    and "call_ingest_tool t (cr_text_raw comment) = None"
  shows "process_comment threshold t st comment_id force =
     \<lparr>result = Error comment_id ''ingest_failed'' [], db_after = st,
      calls = [CallIngest (cr_text_raw comment)], jobs = []\<rparr>"
  using assms find_cr_id [OF assms(1)]
  by (auto simp: process_comment_def create_error_result_def)

lemma process_classify_failed:
  assumes "find (\<lambda>c. cr_id c = comment_id) (comments_raw st) = Some comment"
    and "find (\<lambda>p. cp_comment_id p = comment_id) (comments_processed st) = None \<or> force"
    and "call_ingest_tool t (cr_text_raw comment) = Some ing"
    and "call_classify_tool t (ing_normalized_text ing) (ing_language ing) = None"
  shows "process_comment threshold t st comment_id force =
     \<lparr>result = Error comment_id ''classify_failed'' [], db_after = st,
      calls = [CallIngest (cr_text_raw comment),
               CallClauseLinker (ing_pii_masked ing) (cr_draft_id comment),
               CallClassify (ing_normalized_text ing) (ing_language ing)], jobs = []\<rparr>"
  using assms find_cr_id [OF assms(1)]
  by (auto simp: process_comment_def create_error_result_def Let_def)


subsection \<open>Tables\<close>

lemma find_upd_first:
  "(\<And>x. P x \<Longrightarrow> P (f x)) \<Longrightarrow> find P (upd_first P f xs) = map_option f (find P xs)"
  by (induction xs) auto

lemma find_snoc:
  "find P (xs @ [n]) = (case find P xs of Some x \<Rightarrow> Some x | None \<Rightarrow> if P n then Some n else None)"
  by (induction xs) auto

lemma store_processed_other [simp]:
  "comments_raw (store_processed e p s) = comments_raw s"
  "predictions (store_processed e p s) = predictions s"
  "summaries (store_processed e p s) = summaries s"
  "audits (store_processed e p s) = audits s"
  by (simp_all add: store_processed_def split: option.splits)

lemma store_prediction_other [simp]:
  "comments_raw (store_prediction cid c s) = comments_raw s"
  "comments_processed (store_prediction cid c s) = comments_processed s"
  "summaries (store_prediction cid c s) = summaries s"
  "audits (store_prediction cid c s) = audits s"
  by (simp_all add: store_prediction_def split: option.splits)

lemma store_summary_other [simp]:
  "comments_raw (store_summary cid r s) = comments_raw s"
  "comments_processed (store_summary cid r s) = comments_processed s"
  "predictions (store_summary cid r s) = predictions s"
  "audits (store_summary cid r s) = audits s"
  by (simp_all add: store_summary_def split: option.splits)

lemma audit_log_other [simp]:
  "comments_raw (audit_log a s) = comments_raw s"
  "comments_processed (audit_log a s) = comments_processed s"
  "predictions (audit_log a s) = predictions s"
  "summaries (audit_log a s) = summaries s"
  "audits (audit_log a s) = audits s @ [a]"
  by (simp_all add: audit_log_def)

lemma find_store_processed:
  assumes "e = find (\<lambda>p. cp_comment_id p = cid) (comments_processed s)"
    and "cp_comment_id processed = cid"
  shows "find (\<lambda>p. cp_comment_id p = cid) (comments_processed (store_processed e processed s))
           = Some processed"
  using assms(2) unfolding assms(1)
  by (cases "find (\<lambda>p. cp_comment_id p = cid) (comments_processed s)")
     (auto simp: store_processed_def find_snoc find_upd_first)

lemma find_store_prediction:
  "find (\<lambda>p. pr_comment_id p = cid) (predictions (store_prediction cid c s)) =
     Some (case find (\<lambda>p. pr_comment_id p = cid) (predictions s) of
             Some p \<Rightarrow> set_prediction c p
           | None \<Rightarrow> new_prediction cid c)"
  by (cases "find (\<lambda>p. pr_comment_id p = cid) (predictions s)")
     (auto simp: store_prediction_def find_snoc find_upd_first set_prediction_def new_prediction_def)

lemma stored_prediction_values:
  "p = (case e of Some p \<Rightarrow> set_prediction c p | None \<Rightarrow> new_prediction cid c) \<Longrightarrow>
   pr_confidence p = cls_confidence c \<and> pr_sentiment_label p = Some (cls_sentiment_label c)
   \<and> pr_stance p = Some (cls_stance c) \<and> pr_aspects p = cls_aspects c"
  by (cases e) (simp_all add: set_prediction_def new_prediction_def)

subsection \<open>A run that reaches the quality gate\<close>

lemma process_reaches_gate:
  fixes threshold :: real and t :: tools and st :: storage and comment_id :: string and force :: bool
    and comment :: comment_raw and ing :: ingest_response and cls :: classify_response
  assumes found: "find (\<lambda>c. cr_id c = comment_id) (comments_raw st) = Some comment"
    and go: "find (\<lambda>p. cp_comment_id p = comment_id) (comments_processed st) = None \<or> force"
    and ingest: "call_ingest_tool t (cr_text_raw comment) = Some ing"
    and classify: "call_classify_tool t (ing_normalized_text ing) (ing_language ing) = Some cls"
  defines "existing \<equiv> find (\<lambda>p. cp_comment_id p = comment_id) (comments_processed st)"
  defines "guesses \<equiv> guesses_of (call_clause_linker t (ing_pii_masked ing) (cr_draft_id comment))"
  defines "processed \<equiv> upsert_processed existing comment_id ing guesses"
  defines "s1 \<equiv> store_processed existing processed
                  (st\<lparr>comments_raw := upd_first (\<lambda>c. cr_id c = comment_id)
                        (\<lambda>c. c\<lparr>cr_pii_masked := Some (ing_pii_masked ing), cr_lang := ing_language ing\<rparr>)
                        (comments_raw st)\<rparr>)"
  defines "s2 \<equiv> store_prediction comment_id cls s1"
  defines "s3 \<equiv> (if cls_confidence cls < threshold
                  then audit_log (low_confidence_audit comment_id (cls_confidence cls) threshold) s2
                  else s2)"
  defines "summarize \<equiv> (cls_confidence cls \<ge> threshold \<or> force)"
  defines "s4 \<equiv> (if summarize
                  then (case call_summarize_tool t (ing_normalized_text ing) (first_or_none guesses) of
                          Some r \<Rightarrow> store_summary comment_id r s3
                        | None \<Rightarrow> s3)
                  else s3)"
  shows "process_comment threshold t st comment_id force =
     \<lparr>result = Success comment_id (cls_confidence cls) (cls_sentiment_label cls) (cls_stance cls) guesses,
      db_after = s4,
      calls = [CallIngest (cr_text_raw comment),
               CallClauseLinker (ing_pii_masked ing) (cr_draft_id comment),
               CallClassify (ing_normalized_text ing) (ing_language ing)]
              @ (if summarize then [CallSummarize (ing_normalized_text ing) (first_or_none guesses)] else []),
      jobs = [DeduplicateComments (cr_draft_id comment), ExtractKeywords (cr_draft_id comment)]\<rparr>"
proof -
  have id: "cr_id comment = comment_id" by (rule find_cr_id [OF found])
  have pid: "cp_comment_id processed = comment_id"
    unfolding processed_def existing_def by (rule upsert_id [OF refl])
  have ex: "\<not> (existing \<noteq> None \<and> \<not> force)" using go by (auto simp: existing_def)
  have pid': "\<And>g. cp_comment_id (upsert_processed
                 (find (\<lambda>p. cp_comment_id p = comment_id) (comments_processed st)) comment_id ing g)
               = comment_id"
    by (rule upsert_id [OF refl])
  show ?thesis
    using found ingest classify ex
    unfolding process_comment_def
    by (simp add: Let_def id existing_def guesses_def processed_def
          pid' s1_def s2_def s3_def s4_def summarize_def trigger_post_processing_def
          split: option.splits)
qed

subsection \<open>Facts about the example run\<close>

lemma find_exists: "(\<exists>x \<in> set xs. P x) \<Longrightarrow> \<exists>y. find P xs = Some y"
  by (cases "find P xs") (auto simp: find_None_iff)

lemma never_already_when_unprocessed:
  assumes found: "find (\<lambda>c. cr_id c = comment_id) (comments_raw st) = Some comment"
    and none: "find (\<lambda>p. cp_comment_id p = comment_id) (comments_processed st) = None"
  shows "result (process_comment threshold t st comment_id force) \<noteq> AlreadyProcessed comment_id"
proof (cases "call_ingest_tool t (cr_text_raw comment)")
  case None
  show ?thesis
    unfolding process_ingest_failed [OF found disjI1 [OF none] None] by simp
next
  case (Some ing)
  show ?thesis
  proof (cases "call_classify_tool t (ing_normalized_text ing) (ing_language ing)")
    case None
    show ?thesis
      unfolding process_classify_failed [OF found disjI1 [OF none] Some None] by simp
  next
    case cls: (Some c)
    show ?thesis
      unfolding process_reaches_gate [OF found disjI1 [OF none] Some cls] by simp
  qed
qed

lemma call_tools_update [simp]:
  "call_ingest_tool (t\<lparr>clause_linker_tool := l\<rparr>) = call_ingest_tool t"
  "call_classify_tool (t\<lparr>clause_linker_tool := l\<rparr>) = call_classify_tool t"
  "call_summarize_tool (t\<lparr>clause_linker_tool := l\<rparr>) = call_summarize_tool t"
  "call_clause_linker (t\<lparr>clause_linker_tool := l\<rparr>) x d = call_tool (l x d)"
  by (simp_all add: fun_eq_iff call_ingest_tool_def call_classify_tool_def call_summarize_tool_def
                    call_clause_linker_def)

lemma link_d1:
  "fst (link_comment_to_clauses None example_db short_deadline_rule ''d1'') =
     \<lparr>clause_candidates = [''Rule 8(2)''], detailed_matches = [exact_candidate rule_8_2],
      confidence = 1\<rparr>"
proof -
  have ne: "exact_candidates (find_direct_mentions short_deadline_rule)
              (get_draft_clauses example_db ''d1'') \<noteq> []"
    by (simp add: exact_d1)
  show ?thesis
    unfolding link_exact [OF ne] exact_d1 fst_conv
    by (simp add: max_candidates_def add_refs_def add_ref_def exact_candidate_def rule_8_2_def)
qed

lemma found_c1:
  "find (\<lambda>c. cr_id c = ''c1'') (comments_raw fresh_storage) = Some example_comment"
  "find (\<lambda>c. cr_id c = ''c1'') (comments_raw processed_storage) = Some example_comment"
  "find (\<lambda>p. cp_comment_id p = ''c1'') (comments_processed fresh_storage) = None"
  by (simp_all add: fresh_storage_def processed_storage_def example_comment_def)

lemma example_comment_fields [simp]:
  "cr_id example_comment = ''c1''" "cr_draft_id example_comment = ''d1''"
  "cr_text_raw example_comment = short_deadline_rule"
  by (simp_all add: example_comment_def)

lemma ingested_fields [simp]:
  "ing_pii_masked ingested = short_deadline_rule" "ing_normalized_text ingested = short_deadline_rule"
  "ing_language ingested = Some ''en''" "ing_embedding ingested = None"
  by (simp_all add: ingested_def)

lemma tool_calls:
  "call_ingest_tool example_tools x = Some (ingested\<lparr>ing_pii_masked := x, ing_normalized_text := x\<rparr>)"
  "call_ingest_tool tools_classify_down = call_ingest_tool example_tools"
  "call_ingest_tool tools_at_threshold = call_ingest_tool example_tools"
  "call_ingest_tool tools_unsure = call_ingest_tool example_tools"
  "call_ingest_tool tools_summarize_down = call_ingest_tool example_tools"
  "call_ingest_tool tools_linker_down = call_ingest_tool example_tools"
  by (simp_all add: fun_eq_iff call_ingest_tool_def call_tool_def example_tools_def ingest_ok_def ingested_def
        tools_classify_down_def tools_at_threshold_def tools_unsure_def tools_summarize_down_def
        tools_linker_down_def)

lemma ingest_c1:
  "call_ingest_tool example_tools short_deadline_rule = Some ingested"
  by (simp add: tool_calls ingested_def)

lemma classify_calls:
  "call_classify_tool example_tools x l = Some (classification 0.82)"
  "call_classify_tool tools_classify_down x l = None"
  "call_classify_tool tools_at_threshold x l = Some (classification 0.7)"
  "call_classify_tool tools_unsure x l = Some (classification 0.5)"
  "call_classify_tool tools_summarize_down x l = Some (classification 0.82)"
  "call_classify_tool tools_linker_down x l = Some (classification 0.82)"
  by (simp_all add: call_classify_tool_def call_tool_def example_tools_def classify_ok_def
        classify_down_def classify_at_threshold_def classify_unsure_def
        tools_classify_down_def tools_at_threshold_def tools_unsure_def tools_summarize_down_def
        tools_linker_down_def)

lemma linker_calls:
  "call_clause_linker example_tools x d = Some (fst (link_comment_to_clauses None example_db x d))"
  "call_clause_linker tools_classify_down = call_clause_linker example_tools"
  "call_clause_linker tools_at_threshold = call_clause_linker example_tools"
  "call_clause_linker tools_unsure = call_clause_linker example_tools"
  "call_clause_linker tools_summarize_down = call_clause_linker example_tools"
  "call_clause_linker tools_linker_down x d = None"
  by (simp_all add: fun_eq_iff call_clause_linker_def call_tool_def example_tools_def linker_ok_def
        linker_down_def
        tools_classify_down_def tools_at_threshold_def tools_unsure_def tools_summarize_down_def
        tools_linker_down_def)

lemma guesses_c1:
  "guesses_of (call_clause_linker example_tools short_deadline_rule ''d1'') = [''Rule 8(2)'']"
  by (simp add: linker_calls guesses_of_def link_d1)

lemma guesses_link_d1:
  "guesses_of (Some (fst (link_comment_to_clauses None example_db short_deadline_rule ''d1'')))
     = [''Rule 8(2)'']"
  by (simp add: guesses_of_def link_d1)

lemma summarize_calls:
  "call_summarize_tool tools_summarize_down x r = None"
  by (simp add: call_summarize_tool_def call_tool_def tools_summarize_down_def summarize_down_def)

lemma classification_fields [simp]:
  "cls_confidence (classification c) = c" "cls_sentiment_label (classification c) = ''negative''"
  "cls_stance (classification c) = ''opposes''"
  by (simp_all add: classification_def)

lemma thresholds:
  "cls_confidence (classification 0.7) = default_threshold"
  "cls_confidence (classification 0.5) < default_threshold"
  "default_threshold \<le> cls_confidence (classification 0.82)"
  "\<not> default_threshold \<le> cls_confidence (classification 0.5)"
  by (simp_all add: default_threshold_def)

section \<open>The claims\<close>

subsection \<open>Re-entry on a processed comment\<close>

text \<open>
  Claim C1. When a \<^verbatim>\<open>comments_processed\<close> row exists for the comment id and
  \<open>force_reprocess\<close> is false, \<open>process_comment\<close> returns \<^verbatim>\<open>already_processed\<close>, calls
  none of the four tools, queues no job and leaves storage as it was. The foreign key from
  \<^verbatim>\<open>comments_processed.comment_id\<close> to \<^verbatim>\<open>comments_raw.id\<close> of the migration is the first
  hypothesis: with it the lookup of the raw comment, which comes first in the code, succeeds.
\<close>

theorem C1_already_processed:
  assumes fk: "cp_comment_id ` set (comments_processed st) \<subseteq> cr_id ` set (comments_raw st)"
    and ex: "comment_id \<in> cp_comment_id ` set (comments_processed st)"
  shows "process_comment threshold t st comment_id False =
           \<lparr>result = AlreadyProcessed comment_id, db_after = st, calls = [], jobs = []\<rparr>"
proof -
  from ex fk have "comment_id \<in> cr_id ` set (comments_raw st)" by blast
  then have "\<exists>c \<in> set (comments_raw st). cr_id c = comment_id" by auto
  then obtain comment where found: "find (\<lambda>c. cr_id c = comment_id) (comments_raw st) = Some comment"
    using find_exists [of "comments_raw st" "\<lambda>c. cr_id c = comment_id"] by blast
  from ex have "find (\<lambda>p. cp_comment_id p = comment_id) (comments_processed st) \<noteq> None"
    by (auto simp: find_None_iff)
  with found show ?thesis by (rule process_already)
qed

text \<open>
  The example comment, already processed.
\<close>

theorem C1_witness:
  "cp_comment_id ` set (comments_processed processed_storage)
      \<subseteq> cr_id ` set (comments_raw processed_storage)
   \<and> ''c1'' \<in> cp_comment_id ` set (comments_processed processed_storage)
   \<and> process_comment default_threshold example_tools processed_storage ''c1'' False =
        \<lparr>result = AlreadyProcessed ''c1'', db_after = processed_storage, calls = [], jobs = []\<rparr>"
proof -
  have fk: "cp_comment_id ` set (comments_processed processed_storage)
      \<subseteq> cr_id ` set (comments_raw processed_storage)"
    by (simp add: processed_storage_def fresh_storage_def example_comment_def)
  have ex: "''c1'' \<in> cp_comment_id ` set (comments_processed processed_storage)"
    by (simp add: processed_storage_def)
  show ?thesis
    using C1_already_processed [OF fk ex, of default_threshold example_tools] fk ex by blast
qed

subsection \<open>Classification failure\<close>

text \<open>
  Claim C2, as the code has it. When ingest and clause linking complete and the classify
  call fails, the run returns the error \<^verbatim>\<open>classify_failed\<close> after its three tool calls, and
  storage is exactly as before the run: the processed row of step 4 was flushed inside the
  open transaction, never committed, and is dropped when the session closes. A processed row
  for the comment exists afterwards if and only if one existed before; where none existed, a
  later run without \<open>force_reprocess\<close>, with any tools and any threshold, does not answer
  \<^verbatim>\<open>already_processed\<close>.
\<close>

theorem C2_classify_failure:
  assumes found: "find (\<lambda>c. cr_id c = comment_id) (comments_raw st) = Some comment"
    and go: "find (\<lambda>p. cp_comment_id p = comment_id) (comments_processed st) = None \<or> force"
    and ingest: "call_ingest_tool t (cr_text_raw comment) = Some ing"
    and classify: "call_classify_tool t (ing_normalized_text ing) (ing_language ing) = None"
  shows "result (process_comment threshold t st comment_id force)
           = Error comment_id ''classify_failed'' []
    \<and> db_after (process_comment threshold t st comment_id force) = st
    \<and> calls (process_comment threshold t st comment_id force)
        = [CallIngest (cr_text_raw comment),
           CallClauseLinker (ing_pii_masked ing) (cr_draft_id comment),
           CallClassify (ing_normalized_text ing) (ing_language ing)]
    \<and> (comment_id \<in> cp_comment_id `
           set (comments_processed (db_after (process_comment threshold t st comment_id force)))
        \<longleftrightarrow> comment_id \<in> cp_comment_id ` set (comments_processed st))
    \<and> (comment_id \<notin> cp_comment_id ` set (comments_processed st) \<longrightarrow>
         result (process_comment threshold' t'
                   (db_after (process_comment threshold t st comment_id force)) comment_id False)
           \<noteq> AlreadyProcessed comment_id)"
proof -
  note run = process_classify_failed [OF found go ingest classify, of threshold]
  have retry: "comment_id \<notin> cp_comment_id ` set (comments_processed st) \<longrightarrow>
         result (process_comment threshold' t' st comment_id False) \<noteq> AlreadyProcessed comment_id"
  proof
    assume "comment_id \<notin> cp_comment_id ` set (comments_processed st)"
    then have "find (\<lambda>p. cp_comment_id p = comment_id) (comments_processed st) = None"
      by (auto simp: find_None_iff)
    with found show "result (process_comment threshold' t' st comment_id False) \<noteq> AlreadyProcessed comment_id"
      by (rule never_already_when_unprocessed)
  qed
  show ?thesis
    unfolding run using retry by simp
qed

text \<open>
  The example comment with a classifier that cannot be reached.
\<close>

theorem C2_witness:
  "find (\<lambda>c. cr_id c = ''c1'') (comments_raw fresh_storage) = Some example_comment
   \<and> (find (\<lambda>p. cp_comment_id p = ''c1'') (comments_processed fresh_storage) = None \<or> False)
   \<and> call_ingest_tool tools_classify_down (cr_text_raw example_comment) = Some ingested
   \<and> call_classify_tool tools_classify_down (ing_normalized_text ingested) (ing_language ingested) = None
   \<and> result (process_comment default_threshold tools_classify_down fresh_storage ''c1'' False)
        = Error ''c1'' ''classify_failed'' []
   \<and> db_after (process_comment default_threshold tools_classify_down fresh_storage ''c1'' False)
        = fresh_storage
   \<and> ''c1'' \<notin> cp_comment_id ` set (comments_processed fresh_storage)
   \<and> result (process_comment default_threshold example_tools
                (db_after (process_comment default_threshold tools_classify_down fresh_storage ''c1'' False))
                ''c1'' False)
        \<noteq> AlreadyProcessed ''c1''"
proof -
  have go: "find (\<lambda>p. cp_comment_id p = ''c1'') (comments_processed fresh_storage) = None \<or> False"
    by (simp add: found_c1)
  have ing: "call_ingest_tool tools_classify_down (cr_text_raw example_comment) = Some ingested"
    by (simp add: tool_calls ingest_c1)
  have cls: "call_classify_tool tools_classify_down (ing_normalized_text ingested) (ing_language ingested) = None"
    by (simp add: classify_calls)
  have none: "''c1'' \<notin> cp_comment_id ` set (comments_processed fresh_storage)"
    by (simp add: fresh_storage_def)
  show ?thesis
    using C2_classify_failure [OF found_c1(1) go ing cls, of default_threshold default_threshold example_tools]
          found_c1(1) go ing cls none
    by blast
qed

text \<open>
  That the processed row of step 4 remains in storage fails on the fresh storage: ingest and
  clause linking answer, classification does not, the run reports \<^verbatim>\<open>classify_failed\<close>, and
  no processed row is left.
\<close>

theorem C2_counterexample:
  "''c1'' \<in> set (map cr_id (comments_raw fresh_storage))
   \<and> comments_processed fresh_storage = []
   \<and> call_ingest_tool tools_classify_down short_deadline_rule = Some ingested
   \<and> call_clause_linker tools_classify_down short_deadline_rule ''d1''
        = Some (fst (link_comment_to_clauses None example_db short_deadline_rule ''d1''))
   \<and> call_classify_tool tools_classify_down short_deadline_rule (Some ''en'') = None
   \<and> result (process_comment default_threshold tools_classify_down fresh_storage ''c1'' False)
        = Error ''c1'' ''classify_failed'' []
   \<and> comments_processed
        (db_after (process_comment default_threshold tools_classify_down fresh_storage ''c1'' False))
        = []"
proof -
  have ing: "call_ingest_tool tools_classify_down (cr_text_raw example_comment) = Some ingested"
    by (simp add: tool_calls ingest_c1)
  have cls: "call_classify_tool tools_classify_down (ing_normalized_text ingested) (ing_language ingested) = None"
    by (simp add: classify_calls)
  note run = process_classify_failed [OF found_c1(1) disjI1 [OF found_c1(3)] ing cls, of default_threshold]
  show ?thesis
    unfolding run
    by (simp add: tool_calls ingest_c1 linker_calls classify_calls fresh_storage_def)
qed

subsection \<open>Quality gate\<close>

text \<open>
  Claim C3. For a run that passes ingest and classification: a confidence equal to the
  threshold adds no audit record and the summarize tool is called; a confidence below the
  threshold appends one audit record of change type \<^verbatim>\<open>low_confidence\<close>, the run still
  succeeds and commits the prediction with what the classifier returned, and without
  \<open>force_reprocess\<close> no summarize call is made and the summaries are untouched.
\<close>

theorem C3_quality_gate:
  assumes found: "find (\<lambda>c. cr_id c = comment_id) (comments_raw st) = Some comment"
    and go: "find (\<lambda>p. cp_comment_id p = comment_id) (comments_processed st) = None \<or> force"
    and ingest: "call_ingest_tool t (cr_text_raw comment) = Some ing"
    and classify: "call_classify_tool t (ing_normalized_text ing) (ing_language ing) = Some cls"
  shows "(cls_confidence cls = threshold \<longrightarrow>
            audits (db_after (process_comment threshold t st comment_id force)) = audits st
          \<and> CallSummarize (ing_normalized_text ing)
               (first_or_none (guesses_of (call_clause_linker t (ing_pii_masked ing) (cr_draft_id comment))))
              \<in> set (calls (process_comment threshold t st comment_id force)))
    \<and> (cls_confidence cls < threshold \<longrightarrow>
            audits (db_after (process_comment threshold t st comment_id force))
              = audits st @
                [\<lparr>au_entity = ''comment'', au_entity_id = comment_id,
                  au_change_type = ''low_confidence'',
                  au_change_data = [(''confidence'', cls_confidence cls), (''threshold'', threshold)],
                  au_user_id = ''system''\<rparr>]
          \<and> result (process_comment threshold t st comment_id force)
              = Success comment_id (cls_confidence cls) (cls_sentiment_label cls) (cls_stance cls)
                  (guesses_of (call_clause_linker t (ing_pii_masked ing) (cr_draft_id comment)))
          \<and> (\<exists>p. find (\<lambda>p. pr_comment_id p = comment_id)
                     (predictions (db_after (process_comment threshold t st comment_id force))) = Some p
                 \<and> pr_confidence p = cls_confidence cls
                 \<and> pr_sentiment_label p = Some (cls_sentiment_label cls)
                 \<and> pr_stance p = Some (cls_stance cls))
          \<and> (\<not> force \<longrightarrow>
                \<not> (\<exists>c \<in> set (calls (process_comment threshold t st comment_id force)). is_summarize c)
              \<and> summaries (db_after (process_comment threshold t st comment_id force)) = summaries st))"
proof -
  note run = process_reaches_gate [OF found go ingest classify, of threshold]
  have eq: "cls_confidence cls = threshold \<longrightarrow>
            audits (db_after (process_comment threshold t st comment_id force)) = audits st
          \<and> CallSummarize (ing_normalized_text ing)
               (first_or_none (guesses_of (call_clause_linker t (ing_pii_masked ing) (cr_draft_id comment))))
              \<in> set (calls (process_comment threshold t st comment_id force))"
    unfolding run by (auto split: option.splits)
  have pred: "\<exists>p. find (\<lambda>p. pr_comment_id p = comment_id)
                     (predictions (db_after (process_comment threshold t st comment_id force))) = Some p
                 \<and> pr_confidence p = cls_confidence cls
                 \<and> pr_sentiment_label p = Some (cls_sentiment_label cls)
                 \<and> pr_stance p = Some (cls_stance cls)"
    unfolding run
    using stored_prediction_values [OF refl]
    by (auto simp: find_store_prediction split: option.splits)
  have low: "cls_confidence cls < threshold \<longrightarrow>
            audits (db_after (process_comment threshold t st comment_id force))
              = audits st @
                [\<lparr>au_entity = ''comment'', au_entity_id = comment_id,
                  au_change_type = ''low_confidence'',
                  au_change_data = [(''confidence'', cls_confidence cls), (''threshold'', threshold)],
                  au_user_id = ''system''\<rparr>]
          \<and> result (process_comment threshold t st comment_id force)
              = Success comment_id (cls_confidence cls) (cls_sentiment_label cls) (cls_stance cls)
                  (guesses_of (call_clause_linker t (ing_pii_masked ing) (cr_draft_id comment)))
          \<and> (\<not> force \<longrightarrow>
                \<not> (\<exists>c \<in> set (calls (process_comment threshold t st comment_id force)). is_summarize c)
              \<and> summaries (db_after (process_comment threshold t st comment_id force)) = summaries st)"
    unfolding run by (auto simp: low_confidence_audit_def is_summarize_def split: option.splits)
  show ?thesis
    using eq pred low by blast
qed

text \<open>
  A classifier exactly at the default threshold 0.7, and one at 0.5.
\<close>

theorem C3_witness:
  "find (\<lambda>c. cr_id c = ''c1'') (comments_raw fresh_storage) = Some example_comment
   \<and> (find (\<lambda>p. cp_comment_id p = ''c1'') (comments_processed fresh_storage) = None \<or> False)
   \<and> call_ingest_tool tools_at_threshold (cr_text_raw example_comment) = Some ingested
   \<and> call_classify_tool tools_at_threshold (ing_normalized_text ingested) (ing_language ingested)
        = Some (classification 0.7)
   \<and> cls_confidence (classification 0.7) = default_threshold
   \<and> audits (db_after (process_comment default_threshold tools_at_threshold fresh_storage ''c1'' False)) = []
   \<and> CallSummarize short_deadline_rule (Some ''Rule 8(2)'')
        \<in> set (calls (process_comment default_threshold tools_at_threshold fresh_storage ''c1'' False))
   \<and> call_ingest_tool tools_unsure (cr_text_raw example_comment) = Some ingested
   \<and> call_classify_tool tools_unsure (ing_normalized_text ingested) (ing_language ingested)
        = Some (classification 0.5)
   \<and> cls_confidence (classification 0.5) < default_threshold
   \<and> audits (db_after (process_comment default_threshold tools_unsure fresh_storage ''c1'' False))
        = [\<lparr>au_entity = ''comment'', au_entity_id = ''c1'', au_change_type = ''low_confidence'',
            au_change_data = [(''confidence'', 0.5), (''threshold'', default_threshold)],
            au_user_id = ''system''\<rparr>]
   \<and> result (process_comment default_threshold tools_unsure fresh_storage ''c1'' False)
        = Success ''c1'' 0.5 ''negative'' ''opposes'' [''Rule 8(2)'']
   \<and> \<not> (\<exists>c \<in> set (calls (process_comment default_threshold tools_unsure fresh_storage ''c1'' False)).
         is_summarize c)
   \<and> summaries (db_after (process_comment default_threshold tools_unsure fresh_storage ''c1'' False)) = []"
proof -
  have go: "find (\<lambda>p. cp_comment_id p = ''c1'') (comments_processed fresh_storage) = None \<or> False"
    by (simp add: found_c1)
  have ing1: "call_ingest_tool tools_at_threshold (cr_text_raw example_comment) = Some ingested"
    by (simp add: tool_calls ingest_c1)
  have cls1: "call_classify_tool tools_at_threshold (ing_normalized_text ingested) (ing_language ingested)
        = Some (classification 0.7)"
    by (simp add: classify_calls)
  have ing2: "call_ingest_tool tools_unsure (cr_text_raw example_comment) = Some ingested"
    by (simp add: tool_calls ingest_c1)
  have cls2: "call_classify_tool tools_unsure (ing_normalized_text ingested) (ing_language ingested)
        = Some (classification 0.5)"
    by (simp add: classify_calls)
  have empty: "audits fresh_storage = []" "summaries fresh_storage = []"
    by (simp_all add: fresh_storage_def)
  note at = C3_quality_gate [OF found_c1(1) go ing1 cls1, of default_threshold]
  note low = C3_quality_gate [OF found_c1(1) go ing2 cls2, of default_threshold]
  show ?thesis
    using at low found_c1(1) go ing1 cls1 ing2 cls2 thresholds(1,2)
    by (simp add: empty linker_calls guesses_link_d1 first_or_none_def)
qed

subsection \<open>Summarize stage\<close>

text \<open>
  Claim C4. For a run that passes ingest and classification, the summarize tool is called
  exactly when the confidence is at least the threshold or \<open>force_reprocess\<close> is set. When
  that call fails, no summary row is written, the run still returns \<^verbatim>\<open>success\<close>, and the
  processed row and the prediction are committed.
\<close>

theorem C4_summarize_stage:
  assumes found: "find (\<lambda>c. cr_id c = comment_id) (comments_raw st) = Some comment"
    and go: "find (\<lambda>p. cp_comment_id p = comment_id) (comments_processed st) = None \<or> force"
    and ingest: "call_ingest_tool t (cr_text_raw comment) = Some ing"
    and classify: "call_classify_tool t (ing_normalized_text ing) (ing_language ing) = Some cls"
  shows "((\<exists>c \<in> set (calls (process_comment threshold t st comment_id force)). is_summarize c)
            \<longleftrightarrow> threshold \<le> cls_confidence cls \<or> force)
    \<and> ((threshold \<le> cls_confidence cls \<or> force)
        \<and> call_summarize_tool t (ing_normalized_text ing)
             (first_or_none (guesses_of (call_clause_linker t (ing_pii_masked ing) (cr_draft_id comment))))
            = None
        \<longrightarrow> summaries (db_after (process_comment threshold t st comment_id force)) = summaries st
          \<and> result (process_comment threshold t st comment_id force)
              = Success comment_id (cls_confidence cls) (cls_sentiment_label cls) (cls_stance cls)
                  (guesses_of (call_clause_linker t (ing_pii_masked ing) (cr_draft_id comment)))
          \<and> (\<exists>p. find (\<lambda>p. cp_comment_id p = comment_id)
                     (comments_processed (db_after (process_comment threshold t st comment_id force))) = Some p
                 \<and> cp_text_normalized p = ing_normalized_text ing
                 \<and> cp_clause_guesses p
                     = guesses_of (call_clause_linker t (ing_pii_masked ing) (cr_draft_id comment)))
          \<and> (\<exists>p. find (\<lambda>p. pr_comment_id p = comment_id)
                     (predictions (db_after (process_comment threshold t st comment_id force))) = Some p
                 \<and> pr_confidence p = cls_confidence cls))"
proof -
  note run = process_reaches_gate [OF found go ingest classify, of threshold]
  have iff: "(\<exists>c \<in> set (calls (process_comment threshold t st comment_id force)). is_summarize c)
            \<longleftrightarrow> threshold \<le> cls_confidence cls \<or> force"
    unfolding run by (auto simp: is_summarize_def)
  have pred: "\<exists>p. find (\<lambda>p. pr_comment_id p = comment_id)
                     (predictions (db_after (process_comment threshold t st comment_id force))) = Some p
                 \<and> pr_confidence p = cls_confidence cls"
    unfolding run
    using stored_prediction_values [OF refl]
    by (auto simp: find_store_prediction split: option.splits)
  have proc: "\<exists>p. find (\<lambda>p. cp_comment_id p = comment_id)
                     (comments_processed (db_after (process_comment threshold t st comment_id force))) = Some p
                 \<and> cp_text_normalized p = ing_normalized_text ing
                 \<and> cp_clause_guesses p
                     = guesses_of (call_clause_linker t (ing_pii_masked ing) (cr_draft_id comment))"
    unfolding run
    by (auto simp: find_store_processed upsert_id split: option.splits)
  have swallowed: "(threshold \<le> cls_confidence cls \<or> force)
        \<and> call_summarize_tool t (ing_normalized_text ing)
             (first_or_none (guesses_of (call_clause_linker t (ing_pii_masked ing) (cr_draft_id comment))))
            = None
        \<longrightarrow> summaries (db_after (process_comment threshold t st comment_id force)) = summaries st
          \<and> result (process_comment threshold t st comment_id force)
              = Success comment_id (cls_confidence cls) (cls_sentiment_label cls) (cls_stance cls)
                  (guesses_of (call_clause_linker t (ing_pii_masked ing) (cr_draft_id comment)))"
    unfolding run by auto
  show ?thesis
    using iff pred proc swallowed by blast
qed

text \<open>
  A summarizer that answers 503 after a confident classification, and an unsure
  classification that is not summarized.
\<close>

theorem C4_witness:
  "find (\<lambda>c. cr_id c = ''c1'') (comments_raw fresh_storage) = Some example_comment
   \<and> (find (\<lambda>p. cp_comment_id p = ''c1'') (comments_processed fresh_storage) = None \<or> False)
   \<and> call_ingest_tool tools_summarize_down (cr_text_raw example_comment) = Some ingested
   \<and> call_classify_tool tools_summarize_down (ing_normalized_text ingested) (ing_language ingested)
        = Some (classification 0.82)
   \<and> (default_threshold \<le> cls_confidence (classification 0.82) \<or> False)
   \<and> call_summarize_tool tools_summarize_down short_deadline_rule (Some ''Rule 8(2)'') = None
   \<and> (\<exists>c \<in> set (calls (process_comment default_threshold tools_summarize_down fresh_storage ''c1'' False)).
         is_summarize c)
   \<and> summaries (db_after (process_comment default_threshold tools_summarize_down fresh_storage ''c1'' False))
        = []
   \<and> result (process_comment default_threshold tools_summarize_down fresh_storage ''c1'' False)
        = Success ''c1'' 0.82 ''negative'' ''opposes'' [''Rule 8(2)'']
   \<and> call_ingest_tool tools_unsure (cr_text_raw example_comment) = Some ingested
   \<and> call_classify_tool tools_unsure (ing_normalized_text ingested) (ing_language ingested)
        = Some (classification 0.5)
   \<and> \<not> (default_threshold \<le> cls_confidence (classification 0.5) \<or> False)
   \<and> \<not> (\<exists>c \<in> set (calls (process_comment default_threshold tools_unsure fresh_storage ''c1'' False)).
         is_summarize c)"
proof -
  have go: "find (\<lambda>p. cp_comment_id p = ''c1'') (comments_processed fresh_storage) = None \<or> False"
    by (simp add: found_c1)
  have ing1: "call_ingest_tool tools_summarize_down (cr_text_raw example_comment) = Some ingested"
    by (simp add: tool_calls ingest_c1)
  have cls1: "call_classify_tool tools_summarize_down (ing_normalized_text ingested) (ing_language ingested)
        = Some (classification 0.82)"
    by (simp add: classify_calls)
  have ing2: "call_ingest_tool tools_unsure (cr_text_raw example_comment) = Some ingested"
    by (simp add: tool_calls ingest_c1)
  have cls2: "call_classify_tool tools_unsure (ing_normalized_text ingested) (ing_language ingested)
        = Some (classification 0.5)"
    by (simp add: classify_calls)
  have empty: "summaries fresh_storage = []"
    by (simp add: fresh_storage_def)
  note down = C4_summarize_stage [OF found_c1(1) go ing1 cls1, of default_threshold]
  note low = C4_summarize_stage [OF found_c1(1) go ing2 cls2, of default_threshold]
  show ?thesis
    using down low found_c1(1) go ing1 cls1 ing2 cls2 thresholds(3,4)
    by (simp add: empty linker_calls guesses_link_d1 first_or_none_def summarize_calls)
qed

subsection \<open>Direct mentions short-circuit the cascade\<close>




subsection \<open>Fuzzy tier and confidence\<close>



subsection \<open>Empty clause set\<close>

text \<open>
  Claim C7. When the draft has no clauses the response is the empty one with confidence 0,
  for every text, and none of the three matching steps runs (the mentions are extracted from
  the text before the clauses are read, and are not used).
\<close>

theorem C7_empty_clause_set:
  "get_draft_clauses db draft_id = [] \<Longrightarrow>
   link_comment_to_clauses em db text' draft_id =
     (\<lparr>clause_candidates = [], detailed_matches = [], confidence = 0\<rparr>, [])"
  by (simp add: link_comment_to_clauses_def empty_response_def)

text \<open>
  A draft without clauses in the example database.
\<close>

theorem C7_witness:
  "get_draft_clauses example_db ''d2'' = []
   \<and> link_comment_to_clauses None example_db short_deadline_rule ''d2''
       = (\<lparr>clause_candidates = [], detailed_matches = [], confidence = 0\<rparr>, [])"
  using C7_empty_clause_set [of example_db "''d2''" None short_deadline_rule] clauses_d2
  by simp

subsection \<open>Unknown comment\<close>

text \<open>
  Claim C8, as the code has it. For a comment id unknown to storage the run returns an error
  of type \<^verbatim>\<open>processing_failed\<close> whose details are \<^verbatim>\<open>Comment <id> not found\<close>, calls no
  tool and changes nothing. The type differs from \<^verbatim>\<open>ingest_failed\<close> and
  \<^verbatim>\<open>classify_failed\<close>; it is the type the handler gives to every exception, whatever its
  message.
\<close>

theorem C8_not_found:
  assumes "comment_id \<notin> cr_id ` set (comments_raw st)"
  shows "process_comment threshold t st comment_id force =
           \<lparr>result = Error comment_id ''processing_failed'' (''Comment '' @ comment_id @ '' not found''),
            db_after = st, calls = [], jobs = []\<rparr>
    \<and> error_type_of (result (process_comment threshold t st comment_id force)) \<noteq> Some ''ingest_failed''
    \<and> error_type_of (result (process_comment threshold t st comment_id force)) \<noteq> Some ''classify_failed''
    \<and> error_type_of (result (except_exception comment_id db e made))
        = error_type_of (result (process_comment threshold t st comment_id force))"
proof -
  from assms have "find (\<lambda>c. cr_id c = comment_id) (comments_raw st) = None"
    by (auto simp: find_None_iff)
  note run = process_not_found [OF this, of threshold t force]
  show ?thesis
    unfolding run by (simp add: except_exception_def create_error_result_def)
qed

text \<open>
  An id that is not in the example storage.
\<close>

theorem C8_witness:
  "''c9'' \<notin> cr_id ` set (comments_raw fresh_storage)
   \<and> process_comment default_threshold example_tools fresh_storage ''c9'' False =
        \<lparr>result = Error ''c9'' ''processing_failed'' ''Comment c9 not found'',
         db_after = fresh_storage, calls = [], jobs = []\<rparr>"
proof -
  have h: "''c9'' \<notin> cr_id ` set (comments_raw fresh_storage)"
    by (simp add: fresh_storage_def example_comment_def)
  show ?thesis
    using C8_not_found [OF h, of default_threshold example_tools False] h by simp
qed

text \<open>
  The error type of an unknown comment is not a type of its own: it is
  \<^verbatim>\<open>processing_failed\<close>.
\<close>

theorem C8_counterexample:
  "''c9'' \<notin> set (map cr_id (comments_raw fresh_storage))
   \<and> error_type_of (result (process_comment default_threshold example_tools fresh_storage ''c9'' False))
        = Some ''processing_failed''"
proof -
  have "find (\<lambda>c. cr_id c = ''c9'') (comments_raw fresh_storage) = None"
    by (simp add: fresh_storage_def example_comment_def)
  note run = process_not_found [OF this, of default_threshold example_tools False]
  show ?thesis
    unfolding run by (simp add: fresh_storage_def example_comment_def)
qed

subsection \<open>Clause linker failure\<close>

text \<open>
  Claim C9. When the clause linker call fails, the run is the run with a linker that answers
  and finds nothing: same result, same storage, same calls. If classification fails as well
  the error is \<^verbatim>\<open>classify_failed\<close>; otherwise the run succeeds with an empty list of
  clauses and commits a processed row whose clause guesses are empty.
\<close>

theorem C9_clause_link_failure:
  assumes found: "find (\<lambda>c. cr_id c = comment_id) (comments_raw st) = Some comment"
    and go: "find (\<lambda>p. cp_comment_id p = comment_id) (comments_processed st) = None \<or> force"
    and ingest: "call_ingest_tool t (cr_text_raw comment) = Some ing"
    and link: "call_clause_linker t (ing_pii_masked ing) (cr_draft_id comment) = None"
  shows "process_comment threshold t st comment_id force
           = process_comment threshold (t\<lparr>clause_linker_tool := empty_linker\<rparr>) st comment_id force
    \<and> (call_classify_tool t (ing_normalized_text ing) (ing_language ing) = None \<longrightarrow>
          result (process_comment threshold t st comment_id force)
            = Error comment_id ''classify_failed'' [])
    \<and> (\<forall>cls. call_classify_tool t (ing_normalized_text ing) (ing_language ing) = Some cls \<longrightarrow>
          result (process_comment threshold t st comment_id force)
            = Success comment_id (cls_confidence cls) (cls_sentiment_label cls) (cls_stance cls) []
        \<and> (\<exists>p. find (\<lambda>p. cp_comment_id p = comment_id)
                   (comments_processed (db_after (process_comment threshold t st comment_id force))) = Some p
               \<and> cp_clause_guesses p = []))"
proof -
  let ?t' = "t\<lparr>clause_linker_tool := empty_linker\<rparr>"
  have ingest': "call_ingest_tool ?t' (cr_text_raw comment) = Some ing"
    using ingest by simp
  have g: "guesses_of (call_clause_linker t (ing_pii_masked ing) (cr_draft_id comment)) = []"
    by (simp add: link guesses_of_def)
  have g': "\<And>a b. guesses_of (call_tool (empty_linker a b)) = []"
    by (simp add: guesses_of_def call_tool_def empty_linker_def)
  show ?thesis
  proof (cases "call_classify_tool t (ing_normalized_text ing) (ing_language ing)")
    case None
    then have none': "call_classify_tool ?t' (ing_normalized_text ing) (ing_language ing) = None"
      by simp
    show ?thesis
      unfolding process_classify_failed [OF found go ingest None]
                process_classify_failed [OF found go ingest' none']
      using None by simp
  next
    case (Some cls)
    then have some': "call_classify_tool ?t' (ing_normalized_text ing) (ing_language ing) = Some cls"
      by simp
    note r1 = process_reaches_gate [OF found go ingest Some, of threshold, unfolded g]
    note r2 = process_reaches_gate [OF found go ingest' some', of threshold,
                unfolded call_tools_update g']
    have same: "process_comment threshold t st comment_id force
           = process_comment threshold ?t' st comment_id force"
      unfolding r1 r2 ..
    have res: "result (process_comment threshold t st comment_id force)
            = Success comment_id (cls_confidence cls) (cls_sentiment_label cls) (cls_stance cls) []"
      unfolding process_reaches_gate [OF found go ingest Some] by (simp add: g)
    have row: "\<exists>p. find (\<lambda>p. cp_comment_id p = comment_id)
                   (comments_processed (db_after (process_comment threshold t st comment_id force))) = Some p
               \<and> cp_clause_guesses p = []"
      unfolding process_reaches_gate [OF found go ingest Some]
      by (auto simp: find_store_processed upsert_id g split: option.splits)
    show ?thesis
      using Some same res row by simp
  qed
qed

text \<open>
  A clause linker that times out.
\<close>

theorem C9_witness:
  "find (\<lambda>c. cr_id c = ''c1'') (comments_raw fresh_storage) = Some example_comment
   \<and> (find (\<lambda>p. cp_comment_id p = ''c1'') (comments_processed fresh_storage) = None \<or> False)
   \<and> call_ingest_tool tools_linker_down (cr_text_raw example_comment) = Some ingested
   \<and> call_clause_linker tools_linker_down (ing_pii_masked ingested) (cr_draft_id example_comment) = None
   \<and> call_classify_tool tools_linker_down (ing_normalized_text ingested) (ing_language ingested)
        = Some (classification 0.82)
   \<and> process_comment default_threshold tools_linker_down fresh_storage ''c1'' False
        = process_comment default_threshold (tools_linker_down\<lparr>clause_linker_tool := empty_linker\<rparr>)
            fresh_storage ''c1'' False
   \<and> result (process_comment default_threshold tools_linker_down fresh_storage ''c1'' False)
        = Success ''c1'' 0.82 ''negative'' ''opposes'' []
   \<and> (\<exists>p. find (\<lambda>p. cp_comment_id p = ''c1'')
              (comments_processed
                 (db_after (process_comment default_threshold tools_linker_down fresh_storage ''c1'' False)))
              = Some p
          \<and> cp_clause_guesses p = [])"
proof -
  have go: "find (\<lambda>p. cp_comment_id p = ''c1'') (comments_processed fresh_storage) = None \<or> False"
    by (simp add: found_c1)
  have ing: "call_ingest_tool tools_linker_down (cr_text_raw example_comment) = Some ingested"
    by (simp add: tool_calls ingest_c1)
  have link: "call_clause_linker tools_linker_down (ing_pii_masked ingested) (cr_draft_id example_comment) = None"
    by (simp add: linker_calls)
  have cls: "call_classify_tool tools_linker_down (ing_normalized_text ingested) (ing_language ingested)
        = Some (classification 0.82)"
    by (simp add: classify_calls)
  note t = C9_clause_link_failure [OF found_c1(1) go ing link, of default_threshold]
  from t have same: "process_comment default_threshold tools_linker_down fresh_storage ''c1'' False
        = process_comment default_threshold (tools_linker_down\<lparr>clause_linker_tool := empty_linker\<rparr>)
            fresh_storage ''c1'' False"
    by blast
  from t have imp: "\<forall>cls. call_classify_tool tools_linker_down (ing_normalized_text ingested) (ing_language ingested) = Some cls \<longrightarrow>
          result (process_comment default_threshold tools_linker_down fresh_storage ''c1'' False)
            = Success ''c1'' (cls_confidence cls) (cls_sentiment_label cls) (cls_stance cls) []
        \<and> (\<exists>p. find (\<lambda>p. cp_comment_id p = ''c1'')
                   (comments_processed (db_after (process_comment default_threshold tools_linker_down fresh_storage ''c1'' False))) = Some p
               \<and> cp_clause_guesses p = [])"
    by blast
  from imp cls have res0: "result (process_comment default_threshold tools_linker_down fresh_storage ''c1'' False)
            = Success ''c1'' (cls_confidence (classification 0.82))
                (cls_sentiment_label (classification 0.82)) (cls_stance (classification 0.82)) []
        \<and> (\<exists>p. find (\<lambda>p. cp_comment_id p = ''c1'')
                   (comments_processed (db_after (process_comment default_threshold tools_linker_down fresh_storage ''c1'' False))) = Some p
               \<and> cp_clause_guesses p = [])"
    by blast
  then have res: "result (process_comment default_threshold tools_linker_down fresh_storage ''c1'' False)
        = Success ''c1'' 0.82 ''negative'' ''opposes'' []
      \<and> (\<exists>p. find (\<lambda>p. cp_comment_id p = ''c1'')
              (comments_processed
                 (db_after (process_comment default_threshold tools_linker_down fresh_storage ''c1'' False)))
              = Some p
          \<and> cp_clause_guesses p = [])"
    by simp
  show ?thesis
    using found_c1(1) go ing link cls same res by blast
qed

subsection \<open>Failures inside the linker\<close>

text \<open>
  Claim C10, as the code has it. The link operation is a total function of the text, the
  draft, the database and the embedding model, whose failures are inputs like any other.
  When the database cannot be read the response is the empty one with confidence 0. When
  the embedding of the query raises, or \<^verbatim>\<open>np.dot\<close> raises on vectors of different
  lengths, the failure is caught inside the semantic tier: the response is the one obtained
  without an embedding model, and where no direct mention matched it is the result of the
  fuzzy tier alone.
\<close>

theorem C10_link_failures:
  "fst (link_comment_to_clauses em Unavailable text' draft_id) =
      \<lparr>clause_candidates = [], detailed_matches = [], confidence = 0\<rparr>
   \<and> (encode text' = None
        \<or> (\<exists>q. encode text' = Some q \<and> semantic_candidates q (get_draft_clauses db draft_id) = None)
      \<longrightarrow> link_comment_to_clauses (Some encode) db text' draft_id
            = link_comment_to_clauses None db text' draft_id
        \<and> (get_draft_clauses db draft_id \<noteq> []
             \<and> exact_candidates (find_direct_mentions text') (get_draft_clauses db draft_id) = []
           \<longrightarrow> fst (link_comment_to_clauses (Some encode) db text' draft_id) =
                 \<lparr>clause_candidates =
                    add_refs [] (fuzzy_text_matching text' (get_draft_clauses db draft_id)),
                  detailed_matches = fuzzy_text_matching text' (get_draft_clauses db draft_id),
                  confidence =
                    (if fuzzy_text_matching text' (get_draft_clauses db draft_id) = [] then 0
                     else max_score (fuzzy_text_matching text' (get_draft_clauses db draft_id)))\<rparr>))"
proof (intro conjI impI)
  show "fst (link_comment_to_clauses em Unavailable text' draft_id) =
      \<lparr>clause_candidates = [], detailed_matches = [], confidence = 0\<rparr>"
    by (simp add: link_comment_to_clauses_def get_draft_clauses_def empty_response_def)
next
  assume f: "encode text' = None
        \<or> (\<exists>q. encode text' = Some q \<and> semantic_candidates q (get_draft_clauses db draft_id) = None)"
  have s: "semantic_similarity_search (Some encode) text' (get_draft_clauses db draft_id) = []"
    by (rule semantic_failure [of encode text' "get_draft_clauses db draft_id", OF f])
  have n: "semantic_similarity_search None text' (get_draft_clauses db draft_id) = []"
    by (simp add: semantic_similarity_search_def)
  show "link_comment_to_clauses (Some encode) db text' draft_id
            = link_comment_to_clauses None db text' draft_id"
    by (rule link_depends_on_semantic) (simp add: s n)
  assume "get_draft_clauses db draft_id \<noteq> []
             \<and> exact_candidates (find_direct_mentions text') (get_draft_clauses db draft_id) = []"
  then show "fst (link_comment_to_clauses (Some encode) db text' draft_id) =
                 \<lparr>clause_candidates =
                    add_refs [] (fuzzy_text_matching text' (get_draft_clauses db draft_id)),
                  detailed_matches = fuzzy_text_matching text' (get_draft_clauses db draft_id),
                  confidence =
                    (if fuzzy_text_matching text' (get_draft_clauses db draft_id) = [] then 0
                     else max_score (fuzzy_text_matching text' (get_draft_clauses db draft_id)))\<rparr>"
    using link_fuzzy_alone [OF _ _ s] by blast
qed

text \<open>
  The example database with an encoder that raises.
\<close>

theorem C10_witness:
  "failing_encoder short_deadline = None
   \<and> fst (link_comment_to_clauses None Unavailable short_deadline ''d1'') =
       \<lparr>clause_candidates = [], detailed_matches = [], confidence = 0\<rparr>
   \<and> link_comment_to_clauses (Some failing_encoder) example_db short_deadline ''d1''
       = link_comment_to_clauses None example_db short_deadline ''d1''
   \<and> detailed_matches
        (fst (link_comment_to_clauses (Some failing_encoder) example_db short_deadline ''d1''))
       = [fuzzy_candidate short_deadline rule_9]"
proof -
  have f: "failing_encoder short_deadline = None"
    by (simp add: failing_encoder_def)
  have cs: "get_draft_clauses example_db ''d1'' \<noteq> []"
    by (simp add: clauses_d1)
  have ex: "exact_candidates (find_direct_mentions short_deadline) (get_draft_clauses example_db ''d1'') = []"
    by (simp add: mentions_short_deadline exact_candidates_def)
  note t = C10_link_failures [of None short_deadline "''d1''" failing_encoder example_db]
  from t have u: "fst (link_comment_to_clauses None Unavailable short_deadline ''d1'') =
       \<lparr>clause_candidates = [], detailed_matches = [], confidence = 0\<rparr>"
    by blast
  from t f have eq: "link_comment_to_clauses (Some failing_encoder) example_db short_deadline ''d1''
       = link_comment_to_clauses None example_db short_deadline ''d1''"
    by blast
  from t f cs ex have r: "fst (link_comment_to_clauses (Some failing_encoder) example_db short_deadline ''d1'') =
      \<lparr>clause_candidates =
          add_refs [] (fuzzy_text_matching short_deadline (get_draft_clauses example_db ''d1'')),
       detailed_matches = fuzzy_text_matching short_deadline (get_draft_clauses example_db ''d1''),
       confidence =
          (if fuzzy_text_matching short_deadline (get_draft_clauses example_db ''d1'') = [] then 0
           else max_score (fuzzy_text_matching short_deadline (get_draft_clauses example_db ''d1'')))\<rparr>"
    by blast
  have d: "detailed_matches
        (fst (link_comment_to_clauses (Some failing_encoder) example_db short_deadline ''d1''))
       = [fuzzy_candidate short_deadline rule_9]"
    unfolding r by (simp add: fuzzy_d1)
  show ?thesis
    using f u eq d by blast
qed

text \<open>
  An embedding failure does not give the empty response: with an encoder that raises, the
  fuzzy tier still finds Rule 9.
\<close>

theorem C10_counterexample:
  "failing_encoder short_deadline = None
   \<and> fst (link_comment_to_clauses (Some failing_encoder) example_db short_deadline ''d1'')
       \<noteq> \<lparr>clause_candidates = [], detailed_matches = [], confidence = 0\<rparr>
   \<and> clause_candidates
        (fst (link_comment_to_clauses (Some failing_encoder) example_db short_deadline ''d1''))
       = [''Rule 9'']
   \<and> confidence
        (fst (link_comment_to_clauses (Some failing_encoder) example_db short_deadline ''d1''))
       = 5 / 6"
proof -
  have cs: "get_draft_clauses example_db ''d1'' \<noteq> []"
    by (simp add: clauses_d1)
  have ex: "exact_candidates (find_direct_mentions short_deadline) (get_draft_clauses example_db ''d1'') = []"
    by (simp add: mentions_short_deadline exact_candidates_def)
  have sem: "semantic_similarity_search (Some failing_encoder) short_deadline
               (get_draft_clauses example_db ''d1'') = []"
    by (simp add: semantic_similarity_search_def failing_encoder_def)
  have resp: "fst (link_comment_to_clauses (Some failing_encoder) example_db short_deadline ''d1'') =
      \<lparr>clause_candidates = add_refs [] [fuzzy_candidate short_deadline rule_9],
       detailed_matches = [fuzzy_candidate short_deadline rule_9],
       confidence = max_score [fuzzy_candidate short_deadline rule_9]\<rparr>"
    unfolding link_fuzzy_alone [OF cs ex sem] fuzzy_d1 by simp
  have conf: "confidence
        (fst (link_comment_to_clauses (Some failing_encoder) example_db short_deadline ''d1''))
       = 5 / 6"
    unfolding resp by (simp add: max_score_def score_rule_9)
  have refs: "clause_candidates
        (fst (link_comment_to_clauses (Some failing_encoder) example_db short_deadline ''d1''))
       = [''Rule 9'']"
    unfolding resp by (simp add: add_refs_def add_ref_def fuzzy_candidate_def rule_9_def)
  have ne: "fst (link_comment_to_clauses (Some failing_encoder) example_db short_deadline ''d1'')
       \<noteq> \<lparr>clause_candidates = [], detailed_matches = [], confidence = 0\<rparr>"
    unfolding resp by simp
  have f: "failing_encoder short_deadline = None"
    by (simp add: failing_encoder_def)
  show ?thesis
    using f ne refs conf by blast
qed

end
